theory Spec2Isabelle
  imports Main "HOL-Library.Word"
begin

section \<open>JavaScript strings\<close>

text \<open>
  A JavaScript string is a sequence of UTF-16 code units. String literals of the sources
  are ASCII; \<open>js\<close> turns such a literal into its code units.
\<close>

type_synonym jsstring = "16 word list"

definition js :: "string \<Rightarrow> jsstring" where
  "js s = map of_char s"

text \<open>
  The character class \<^verbatim>\<open>\w\<close> of a regular expression without the \<^verbatim>\<open>u\<close> and \<^verbatim>\<open>i\<close>
  flags is exactly \<^verbatim>\<open>[A-Za-z0-9_]\<close>; \<^verbatim>\<open>\W\<close> is its complement, and it contains the
  whole of \<^verbatim>\<open>\s\<close>.
\<close>

definition isDigit :: "16 word \<Rightarrow> bool" where
  "isDigit c = (0x30 \<le> c \<and> c \<le> 0x39)"

definition isUpper :: "16 word \<Rightarrow> bool" where
  "isUpper c = (0x41 \<le> c \<and> c \<le> 0x5A)"

definition isLower :: "16 word \<Rightarrow> bool" where
  "isLower c = (0x61 \<le> c \<and> c \<le> 0x7A)"

definition isWordChar :: "16 word \<Rightarrow> bool" where
  "isWordChar c = (isDigit c \<or> isUpper c \<or> c = 0x5F \<or> isLower c)"

definition isWhiteSpace :: "16 word \<Rightarrow> bool" where
  "isWhiteSpace c = (c \<in> set [0x09, 0x0A, 0x0B, 0x0C, 0x0D, 0x20, 0xA0, 0x1680,
      0x2000, 0x2001, 0x2002, 0x2003, 0x2004, 0x2005, 0x2006, 0x2007, 0x2008, 0x2009,
      0x200A, 0x2028, 0x2029, 0x202F, 0x205F, 0x3000, 0xFEFF])"

text \<open>The class \<^verbatim>\<open>[\W\s]\<close> of \<open>getTenantUrl\<close>.\<close>

definition re_class :: "16 word \<Rightarrow> bool" where
  "re_class c = (\<not> isWordChar c \<or> isWhiteSpace c)"

text \<open>
  \<^verbatim>\<open>s.replace(/[C]+/g, rep)\<close>: every maximal run of code units of the class is replaced
  by \<open>rep\<close> (which holds no \<^verbatim>\<open>$\<close> pattern in the sources).
\<close>

function replace_class :: "(16 word \<Rightarrow> bool) \<Rightarrow> jsstring \<Rightarrow> jsstring \<Rightarrow> jsstring" where
  "replace_class p rep [] = []"
| "replace_class p rep (c # cs) =
     (if p c then rep @ replace_class p rep (dropWhile p cs)
      else c # replace_class p rep cs)"
  by pat_completeness auto
termination
  by (relation "measure (\<lambda>(p, rep, s). length s)")
     (auto simp: length_dropWhile_le less_Suc_eq_le)

text \<open>
  \<^verbatim>\<open>String.prototype.toLowerCase\<close>. On a string of ASCII code units it maps \<^verbatim>\<open>A-Z\<close> to
  \<^verbatim>\<open>a-z\<close> unit by unit. On any other string the result is given by the Unicode case
  tables, which are not part of the repository: they are the parameter
  \<open>unicodeLower\<close>.
\<close>

definition asciiLower :: "16 word \<Rightarrow> 16 word" where
  "asciiLower c = (if isUpper c then c + 0x20 else c)"

definition toLowerCase :: "(jsstring \<Rightarrow> jsstring) \<Rightarrow> jsstring \<Rightarrow> jsstring" where
  "toLowerCase unicodeLower s =
     (if list_all (\<lambda>c. c < 0x80) s then map asciiLower s else unicodeLower s)"

subsection \<open>The landing page's register component\<close>

text \<open>
  \<^verbatim>\<open>const re = /[\W\s]+/g;
  const tenantId = companyName.replace(re, '').toLowerCase();\<close>
\<close>

definition tenantId :: "(jsstring \<Rightarrow> jsstring) \<Rightarrow> jsstring \<Rightarrow> jsstring" where
  "tenantId unicodeLower companyName =
     toLowerCase unicodeLower (replace_class re_class [] companyName)"

record environment =
  usingCustomDomain :: bool
  domain :: jsstring

datatype js_error = TypeError

text \<open>
  \<open>getTenantUrl\<close> reads the form value, which is \<^verbatim>\<open>null\<close> until the field is filled:
  calling \<^verbatim>\<open>replace\<close> on it throws.
\<close>

definition getTenantUrl ::
  "(jsstring \<Rightarrow> jsstring) \<Rightarrow> environment \<Rightarrow> jsstring option \<Rightarrow> js_error + jsstring" where
  "getTenantUrl unicodeLower env formCompanyName =
     (case formCompanyName of
        None \<Rightarrow> Inl TypeError
      | Some companyName \<Rightarrow>
          (let tid = tenantId unicodeLower companyName in
           if usingCustomDomain env
           then Inr (js ''https://'' @ tid @ js ''.'' @ domain env @ js ''/'')
           else Inr (js ''https://'' @ domain env @ js ''/'' @ tid @ js ''/'')))"

text \<open>
  The derivation as the specification words it: non-alphanumeric code units stripped,
  the result lower-cased.
\<close>

definition isAlnum :: "16 word \<Rightarrow> bool" where
  "isAlnum c = (isDigit c \<or> isUpper c \<or> isLower c)"

definition slug_spec :: "jsstring \<Rightarrow> jsstring" where
  "slug_spec s = map asciiLower (filter isAlnum s)"

text \<open>The code units a tenant identifier is made of.\<close>

definition isSlugChar :: "16 word \<Rightarrow> bool" where
  "isSlugChar c = (isDigit c \<or> c = 0x5F \<or> isLower c)"

section \<open>The application client's auth interceptor\<close>

text \<open>
  Angular's \<^verbatim>\<open>HttpHeaders\<close> keeps two JavaScript maps, both keyed by the lower-cased
  header name: the values of each header and the spelling of its name as first seen. A
  JavaScript map keeps its keys in insertion order, and setting a key that is present
  keeps its place.
\<close>

fun map_set :: "'k \<Rightarrow> 'v \<Rightarrow> ('k \<times> 'v) list \<Rightarrow> ('k \<times> 'v) list" where
  "map_set k v [] = [(k, v)]"
| "map_set k v (p # ps) = (if fst p = k then (k, v) # ps else p # map_set k v ps)"

record HttpHeaders =
  headers_map :: "(jsstring \<times> jsstring list) list"
  normalizedNames :: "(jsstring \<times> jsstring) list"

text \<open>\<^verbatim>\<open>maybeSetNormalizedName\<close>: the spelling is recorded only for a new header.\<close>

definition maybeSetNormalizedName ::
  "jsstring \<Rightarrow> jsstring \<Rightarrow> (jsstring \<times> jsstring) list \<Rightarrow> (jsstring \<times> jsstring) list" where
  "maybeSetNormalizedName name lcName names =
     (case map_of names lcName of None \<Rightarrow> map_set lcName name names | Some _ \<Rightarrow> names)"

text \<open>\<^verbatim>\<open>headers.set(name, value)\<close>: a copy in which the header has the one value.\<close>

definition headers_set ::
  "(jsstring \<Rightarrow> jsstring) \<Rightarrow> jsstring \<Rightarrow> jsstring \<Rightarrow> 'a HttpHeaders_scheme \<Rightarrow> 'a HttpHeaders_scheme" where
  "headers_set unicodeLower name v h =
     (let key = toLowerCase unicodeLower name in
      h\<lparr>headers_map := map_set key [v] (headers_map h),
        normalizedNames := maybeSetNormalizedName name key (normalizedNames h)\<rparr>)"

text \<open>\<^verbatim>\<open>headers.get(name)\<close>: the first value of the header, or \<^verbatim>\<open>null\<close>.\<close>

definition headers_get ::
  "(jsstring \<Rightarrow> jsstring) \<Rightarrow> 'a HttpHeaders_scheme \<Rightarrow> jsstring \<Rightarrow> jsstring option" where
  "headers_get unicodeLower h name =
     (case map_of (headers_map h) (toLowerCase unicodeLower name) of
        None \<Rightarrow> None
      | Some [] \<Rightarrow> None
      | Some (v # _) \<Rightarrow> Some v)"

text \<open>
  An \<^verbatim>\<open>HttpRequest\<close>. The body, the parameters and the context are of types the
  interceptor never looks into.
\<close>

record ('b, 'p, 'c) HttpRequest =
  url :: jsstring
  http_method :: jsstring
  body :: 'b
  headers :: HttpHeaders
  params :: 'p
  req_context :: 'c
  reportProgress :: bool
  responseType :: jsstring
  withCredentials :: bool

text \<open>\<^verbatim>\<open>req.clone({headers: h})\<close>: a request with the fields of \<open>req\<close> and the headers \<open>h\<close>.\<close>

definition clone_headers ::
  "('b, 'p, 'c) HttpRequest \<Rightarrow> HttpHeaders \<Rightarrow> ('b, 'p, 'c) HttpRequest" where
  "clone_headers req h = req\<lparr>headers := h\<rparr>"

text \<open>\<^verbatim>\<open>s.includes(sub)\<close>: \<open>sub\<close> occurs in \<open>s\<close>.\<close>

fun str_includes :: "jsstring \<Rightarrow> jsstring \<Rightarrow> bool" where
  "str_includes [] sub = (sub = [])"
| "str_includes (c # cs) sub = (take (length sub) (c # cs) = sub \<or> str_includes cs sub)"

text \<open>
  \<open>getIdToken\<close> gives a string or nothing; the test \<^verbatim>\<open>!token\<close> holds for \<^verbatim>\<open>null\<close>,
  \<^verbatim>\<open>undefined\<close> and the empty string.
\<close>

definition falsy :: "jsstring option \<Rightarrow> bool" where
  "falsy token = (case token of None \<Rightarrow> True | Some t \<Rightarrow> t = [])"

text \<open>
  \<open>intercept\<close>: the result is what the next handler makes of the request it is given.
  \<^verbatim>\<open>
  const token = this.oidcSecurityService.getIdToken();
  if (!token || req.url.includes('amazoncognito')) { return next.handle(req); }
  req = req.clone({ headers: req.headers.set('Authorization', 'Bearer ' + token) });
  return next.handle(req);\<close>
\<close>

definition intercept ::
  "(jsstring \<Rightarrow> jsstring) \<Rightarrow> jsstring option \<Rightarrow> ('b, 'p, 'c) HttpRequest \<Rightarrow>
   (('b, 'p, 'c) HttpRequest \<Rightarrow> 'r) \<Rightarrow> 'r" where
  "intercept unicodeLower token req next_handle =
     (if falsy token \<or> str_includes (url req) (js ''amazoncognito'') then next_handle req
      else
        (case token of
           None \<Rightarrow> next_handle req
         | Some t \<Rightarrow>
             next_handle (clone_headers req
               (headers_set unicodeLower (js ''Authorization'') (js ''Bearer '' @ t)
                  (headers req)))))"

text \<open>A request to the product service of a tenant, with one header.\<close>

definition example_request :: "(unit, unit, unit) HttpRequest" where
  "example_request =
     \<lparr>url = js ''https://api.example.com/acmecorp/products'', http_method = js ''GET'',
      body = (), headers = \<lparr>headers_map = [(js ''accept'', [js ''application/json''])],
        normalizedNames = [(js ''accept'', js ''Accept'')]\<rparr>,
      params = (), req_context = (), reportProgress = False, responseType = js ''json'',
      withCredentials = False\<rparr>"

section \<open>JavaScript numbers\<close>

text \<open>
  A JavaScript number is an IEEE 754 double. \<open>Finite s m e\<close> is the value
  \<open>(-1)\<^sup>s \<times> m \<times> 2\<^sup>e\<close>; a double has \<open>m < 2\<^sup>5\<^sup>3\<close> and \<open>-1074 \<le> e \<le> 971\<close>. In the normal
  form that \<open>round_double\<close> returns, \<open>m\<close> has 53 bits, or \<open>e = -1074\<close> (a subnormal), or
  \<open>m = 0\<close> and \<open>e = 0\<close>: two finite doubles in normal form are the same number exactly
  when they are the same term, up to the sign of zero.
\<close>

datatype number = Finite bool nat int | Infinity bool | NaN

text \<open>The number of binary digits of a natural number.\<close>

fun bitlen :: "nat \<Rightarrow> nat" where
  "bitlen m = (if m = 0 then 0 else Suc (bitlen (m div 2)))"

definition mk_double :: "bool \<Rightarrow> nat \<Rightarrow> int \<Rightarrow> number" where
  "mk_double s m q = (if m = 0 then Finite s 0 0 else if 971 < q then Infinity s else Finite s m q)"

text \<open>
  Rounding the exact value \<open>m \<times> 2\<^sup>e\<close> to the nearest double, ties to the even
  significand; a value of magnitude \<open>2\<^sup>1\<^sup>0\<^sup>2\<^sup>4\<close> or more after rounding is infinite.
\<close>

definition round_double :: "bool \<Rightarrow> nat \<Rightarrow> int \<Rightarrow> number" where
  "round_double s m e =
     (if m = 0 then Finite s 0 0
      else
        let q = max (e + int (bitlen m) - 53) (- 1074) in
        if q \<le> e then mk_double s (m * 2 ^ nat (e - q)) q
        else
          let sh = nat (q - e);
              d = m div 2 ^ sh;
              r = m mod 2 ^ sh;
              half = 2 ^ (sh - 1);
              d' = (if half < r \<or> (r = half \<and> odd d) then d + 1 else d)
          in if d' = 2 ^ 53 then mk_double s (2 ^ 52) (q + 1) else mk_double s d' q)"

definition signed :: "bool \<Rightarrow> nat \<Rightarrow> int" where
  "signed s m = (if s then - int m else int m)"

fun add :: "number \<Rightarrow> number \<Rightarrow> number" where
  "add NaN _ = NaN"
| "add _ NaN = NaN"
| "add (Infinity s) (Infinity t) = (if s = t then Infinity s else NaN)"
| "add (Infinity s) (Finite _ _ _) = Infinity s"
| "add (Finite _ _ _) (Infinity t) = Infinity t"
| "add (Finite s m e) (Finite t n f) =
     (let q = min e f;
          c = signed s (m * 2 ^ nat (e - q)) + signed t (n * 2 ^ nat (f - q))
      in if c = 0 then Finite (s \<and> t) 0 0 else round_double (c < 0) (nat \<bar>c\<bar>) q)"

fun mul :: "number \<Rightarrow> number \<Rightarrow> number" where
  "mul NaN _ = NaN"
| "mul _ NaN = NaN"
| "mul (Infinity s) (Infinity t) = Infinity (s \<noteq> t)"
| "mul (Infinity s) (Finite t n _) = (if n = 0 then NaN else Infinity (s \<noteq> t))"
| "mul (Finite s m _) (Infinity t) = (if m = 0 then NaN else Infinity (s \<noteq> t))"
| "mul (Finite s m e) (Finite t n f) = round_double (s \<noteq> t) (m * n) (e + f)"

text \<open>
  Number literals: a natural number, and a decimal fraction \<open>p / 10\<^sup>k\<close> with \<open>p > 0\<close>.
  The quotient is taken to more than 64 bits and its last bit records whether the
  division left a remainder, so that the one rounding to 53 bits is the correct one.
\<close>

definition number_of_nat :: "nat \<Rightarrow> number" where
  "number_of_nat n = round_double False n 0"

definition decimal_literal :: "nat \<Rightarrow> nat \<Rightarrow> number" where
  "decimal_literal p k =
     (let t = 64 + bitlen (10 ^ k);
          quo = (p * 2 ^ t) div 10 ^ k;
          sticky = (if (p * 2 ^ t) mod 10 ^ k = 0 then 0 else 1)
      in round_double False (2 * quo + sticky) (- int t - 1))"

section \<open>The order detail component\<close>

record OrderProduct =
  price :: number
  quantity :: number

record Order =
  orderProduct :: "OrderProduct list"

text \<open>\<^verbatim>\<open>taxRate = .0899\<close>\<close>

definition taxRate :: number where
  "taxRate = decimal_literal 899 4"

text \<open>
  \<^verbatim>\<open>xs.reduce((acc, curr) => f(acc, curr))\<close> with no initial value: the first element
  starts the accumulation, and an empty array throws a \<^verbatim>\<open>TypeError\<close>.
\<close>

definition reduce :: "('a \<Rightarrow> 'a \<Rightarrow> 'a) \<Rightarrow> 'a list \<Rightarrow> js_error + 'a" where
  "reduce f xs = (case xs of [] \<Rightarrow> Inl TypeError | x # rest \<Rightarrow> Inr (foldl f x rest))"

text \<open>The methods \<open>sum\<close>, \<open>tax\<close> and \<open>total\<close> of one item, then those of an order.\<close>

definition sum_op :: "OrderProduct \<Rightarrow> number" where
  "sum_op op = mul (price op) (quantity op)"

definition tax :: "OrderProduct \<Rightarrow> number" where
  "tax op = mul (sum_op op) taxRate"

definition total :: "OrderProduct \<Rightarrow> number" where
  "total op = add (sum_op op) (tax op)"

definition subTotal :: "Order \<Rightarrow> js_error + number" where
  "subTotal order =
     reduce (\<lambda>acc curr. add acc curr)
       (map (\<lambda>op. mul (price op) (quantity op)) (orderProduct order))"

definition calcTax :: "Order \<Rightarrow> js_error + number" where
  "calcTax order =
     (case subTotal order of Inl err \<Rightarrow> Inl err | Inr s \<Rightarrow> Inr (mul s taxRate))"

definition final :: "Order \<Rightarrow> js_error + number" where
  "final order =
     (case subTotal order of
        Inl err \<Rightarrow> Inl err
      | Inr s \<Rightarrow> (case calcTax order of Inl err \<Rightarrow> Inl err | Inr t \<Rightarrow> Inr (add s t)))"

text \<open>An order of three units at the price of 1.\<close>

definition example_order :: Order where
  "example_order = \<lparr>orderProduct = [\<lparr>price = number_of_nat 1, quantity = number_of_nat 3\<rparr>]\<rparr>"

section \<open>Kubernetes resources\<close>

text \<open>
  The resources of the application services' manifests: a deployment of one container,
  named as its \<^verbatim>\<open>app\<close> label; a service with one port; an ingress of the NGINX
  controller with one host. A cluster holds at most one resource of a kind under a name
  in a namespace.
\<close>

datatype kind = Deployment | Service | Ingress

datatype mergeable_ingress_type = Master | Minion

record deployment =
  replicas :: nat
  app :: string
  serviceAccountName :: string
  automountServiceAccountToken :: bool
  image :: string
  containerPort :: nat

record service =
  selector_app :: string
  port :: nat
  targetPort :: nat
  service_type :: string

record http_path =
  path :: string
  pathType :: string
  backend_service :: string
  backend_port :: nat

record ingress =
  ingress_class :: string
  mergeable_type :: mergeable_ingress_type
  host :: string
  paths :: "http_path list"

datatype spec = DeploymentSpec deployment | ServiceSpec service | IngressSpec ingress

fun kind_of :: "spec \<Rightarrow> kind" where
  "kind_of (DeploymentSpec _) = Deployment"
| "kind_of (ServiceSpec _) = Service"
| "kind_of (IngressSpec _) = Ingress"

text \<open>A manifest: the resources of a file, each under its \<^verbatim>\<open>metadata.name\<close>.\<close>

type_synonym manifest = "(string \<times> spec) list"

record cluster =
  namespaces :: "string set"
  resources :: "string \<times> kind \<times> string \<rightharpoonup> spec"

text \<open>The manifest of the order service.\<close>

definition order_service_yaml :: manifest where
  "order_service_yaml =
     [(''order'', DeploymentSpec \<lparr>replicas = 1, app = ''order'',
         serviceAccountName = ''KUSTOMIZE_SVC_ACCOUNT_NAME'', automountServiceAccountToken = True,
         image = ''KUSTOMIZE_IMAGE'', containerPort = 5001\<rparr>),
      (''order-service'', ServiceSpec \<lparr>selector_app = ''order'', port = 80, targetPort = 5001,
         service_type = ''NodePort''\<rparr>),
      (''order-service-ingress'', IngressSpec \<lparr>ingress_class = ''nginx'',
         mergeable_type = Minion, host = ''KUSTOMIZE_API_HOST'',
         paths = [\<lparr>path = ''/KUSTOMIZE_TENANT/orders'', pathType = ''Prefix'',
                   backend_service = ''order-service'', backend_port = 80\<rparr>]\<rparr>)]"

text \<open>The manifest of the product service.\<close>

definition product_service_yaml :: manifest where
  "product_service_yaml =
     [(''product'', DeploymentSpec \<lparr>replicas = 1, app = ''product'',
         serviceAccountName = ''KUSTOMIZE_SVC_ACCOUNT_NAME'', automountServiceAccountToken = True,
         image = ''KUSTOMIZE_IMAGE'', containerPort = 5000\<rparr>),
      (''product-service'', ServiceSpec \<lparr>selector_app = ''product'', port = 80, targetPort = 5000,
         service_type = ''NodePort''\<rparr>),
      (''product-service-ingress'', IngressSpec \<lparr>ingress_class = ''nginx'',
         mergeable_type = Minion, host = ''KUSTOMIZE_API_HOST'',
         paths = [\<lparr>path = ''/KUSTOMIZE_TENANT_NAME/products'', pathType = ''Prefix'',
                   backend_service = ''product-service'', backend_port = 80\<rparr>]\<rparr>)]"

text \<open>
  The primary mergeable ingress of the cluster stack: the one \<^verbatim>\<open>master\<close>, in the
  namespace \<^verbatim>\<open>default\<close>, with the host of the load balancer and no path.
\<close>

definition master_key :: "string \<times> kind \<times> string" where
  "master_key = (''default'', Ingress, ''default-primary-mergable-ingress'')"

definition PrimarySameHostMergableIngress :: "string \<Rightarrow> spec" where
  "PrimarySameHostMergableIngress nlbDomain =
     IngressSpec \<lparr>ingress_class = ''nginx'', mergeable_type = Master, host = nlbDomain,
       paths = []\<rparr>"

text \<open>The route rules of a manifest: host, path, backend service and backend port.\<close>

fun rules_of :: "spec \<Rightarrow> (string \<times> string \<times> string \<times> nat) list" where
  "rules_of (IngressSpec i) =
     map (\<lambda>p. (host i, path p, backend_service p, backend_port p)) (paths i)"
| "rules_of _ = []"

definition route_rules :: "manifest \<Rightarrow> (string \<times> string \<times> string \<times> nat) list" where
  "route_rules m = concat (map (\<lambda>r. rules_of (snd r)) m)"

text \<open>The routing state of a cluster: its ingresses, by namespace and name.\<close>

definition routing_state :: "cluster \<Rightarrow> string \<times> string \<rightharpoonup> spec" where
  "routing_state c = (\<lambda>(ns, n). resources c (ns, Ingress, n))"

text \<open>
  \<^verbatim>\<open>kubectl apply\<close> of a manifest in a namespace: every resource of the manifest is
  created, or takes the place of the resource of its kind and name.
\<close>

fun apply_manifest :: "string \<Rightarrow> manifest \<Rightarrow> (string \<times> kind \<times> string \<rightharpoonup> spec) \<Rightarrow>
    (string \<times> kind \<times> string \<rightharpoonup> spec)" where
  "apply_manifest ns [] rs = rs"
| "apply_manifest ns (r # m) rs = apply_manifest ns m (rs((ns, kind_of (snd r), fst r) \<mapsto> snd r))"

section \<open>Build projects\<close>

text \<open>
  A word of a shell command: literal text and variables. \<open>expand\<close> is the expansion
  inside double quotes, where an unset variable is empty.
\<close>

datatype piece = Lit string | Var string

type_synonym shword = "piece list"

fun expand_piece :: "(string \<rightharpoonup> string) \<Rightarrow> piece \<Rightarrow> string" where
  "expand_piece vars (Lit s) = s"
| "expand_piece vars (Var v) = (case vars v of None \<Rightarrow> [] | Some x \<Rightarrow> x)"

definition expand :: "(string \<rightharpoonup> string) \<Rightarrow> shword \<Rightarrow> string" where
  "expand vars w = concat (map (expand_piece vars) w)"

text \<open>
  An expansion outside quotes is one argument only when it is not empty and holds no
  blank and no pattern character.
\<close>

definition single_word :: "string \<Rightarrow> bool" where
  "single_word w =
     (w \<noteq> [] \<and>
      list_all (\<lambda>c. c \<notin> set [CHR '' '', CHR 0x09, CHR 0x0A, CHR ''*'', CHR ''?'', CHR ''['']) w)"

text \<open>\<^verbatim>\<open>awk '{print tolower($0)}'\<close>\<close>

definition tolower :: "char \<Rightarrow> char" where
  "tolower c =
     (case map_of (zip ''ABCDEFGHIJKLMNOPQRSTUVWXYZ'' ''abcdefghijklmnopqrstuvwxyz'') c of
        None \<Rightarrow> c
      | Some l \<Rightarrow> l)"

text \<open>
  The commands of the build specifications.
  \<^item> \<open>ExportLower v t\<close>: \<^verbatim>\<open>export v=$(echo 't' | awk '{print tolower($0)}')\<close>
  \<^item> \<open>EchoAppend w f\<close>: \<^verbatim>\<open>echo "w" >> f\<close>; the words of the build specifications
    begin with a blank, so that none is an option of \<^verbatim>\<open>echo\<close>, and the line appended
    is the expanded word as it is, which is what \<^verbatim>\<open>echo\<close> writes for a word with no
    backslash (the \<^verbatim>\<open>echo\<close> of \<^verbatim>\<open>sh\<close> may rewrite a backslash escape; an identifier of
    a tenant, made of \<^verbatim>\<open>a-z\<close>, \<^verbatim>\<open>0-9\<close> and \<^verbatim>\<open>_\<close>, holds none)
  \<^item> \<open>Cp a b\<close>: \<^verbatim>\<open>cp a b\<close>
  \<^item> \<open>KubectlApply d w\<close>: \<^verbatim>\<open>kubectl apply -k d -n w\<close>, the namespace not quoted
  \<^item> \<open>StartBuild p ovs\<close>: \<^verbatim>\<open>aws codebuild start-build --project-name p
    --environment-variables-override name=n,value="w",type=PLAINTEXT\<close>
  \<^item> \<open>Cdk w\<close>: \<^verbatim>\<open>npm run cdk w\<close> for a deployment or a destruction of a stack
  \<^item> \<open>External t\<close>: a command that leaves the files of the workspace and the resources of
    the cluster as they are (\<^verbatim>\<open>curl\<close>, \<^verbatim>\<open>chmod\<close>, \<^verbatim>\<open>npm i\<close>, \<^verbatim>\<open>aws eks update-kubeconfig\<close>,
    \<^verbatim>\<open>cdk bootstrap\<close>), taken to succeed.
\<close>

datatype command =
    ExportLower string string
  | EchoAppend shword string
  | Cp string string
  | KubectlApply string shword
  | StartBuild string "(string \<times> shword) list"
  | Cdk shword
  | External string

text \<open>
  The workspace of a build: the text files, as lines, and the resources that the
  manifests of the \<^verbatim>\<open>kubernetes\<close> directory declare.
\<close>

record workspace =
  files :: "string \<rightharpoonup> string list"
  yaml :: manifest

record codebuild_project =
  projectName :: string
  source :: workspace
  environmentVariables :: "(string \<times> string) list"
  install :: "command list"
  pre_build :: "command list"
  build :: "command list"
  post_build :: "command list"

text \<open>
  What a build meets outside its workspace: the build projects of the account, and the
  effect on the cluster of deploying or destroying a stack of the tenant onboarding
  application. That application is not among the sources, so its effect is a parameter;
  it gives nothing when the command fails.
\<close>

record aws =
  projects :: "codebuild_project list"
  cdk :: "string \<Rightarrow> cluster \<Rightarrow> cluster option"

record build_state =
  vars :: "string \<rightharpoonup> string"
  ws :: workspace
  cl :: cluster
  started :: "(string \<times> (string \<times> string) list) list"
  failed :: bool

subsection \<open>Kustomize\<close>

fun strip_prefix :: "string \<Rightarrow> string \<Rightarrow> string option" where
  "strip_prefix [] s = Some s"
| "strip_prefix (p # ps) [] = None"
| "strip_prefix (p # ps) (c # cs) = (if p = c then strip_prefix ps cs else None)"

text \<open>
  Modelled from the spec: \<^verbatim>\<open>kubernetes/kustomization.yaml\<close>, \<^verbatim>\<open>host-patch.yaml\<close> and the
  two patch templates are not among the sources. Each patch file ends with the line
  \<^verbatim>\<open>  value: ...\<close> that the build appends, and the build of the directory puts that value
  in the place of the placeholder: the host and the path of the ingress (``emits a route
  rule \<^verbatim>\<open>{host: <shared API host>, path: /{tenantId}/{servicePrefix}, backend: <service>}\<close>''),
  the service account and the image of the deployment. The lines are read literally,
  which is what YAML does for a value made of letters, digits and \<^verbatim>\<open>/ . _ -\<close>.
\<close>

definition patch_value :: "(string \<rightharpoonup> string list) \<Rightarrow> string \<Rightarrow> string option" where
  "patch_value fs f =
     (case fs f of
        None \<Rightarrow> None
      | Some ls \<Rightarrow> if ls = [] then None else strip_prefix ''  value: '' (last ls))"

text \<open>
  Modelled from the spec: the image of the deployment is the \<^verbatim>\<open>newName\<close> and the
  \<^verbatim>\<open>newTag\<close> that the build appends to \<^verbatim>\<open>kustomization.yaml\<close>, which is not among the
  sources.
\<close>

definition image_of :: "(string \<rightharpoonup> string list) \<Rightarrow> string \<Rightarrow> string option" where
  "image_of fs f =
     (case fs f of
        None \<Rightarrow> None
      | Some ls \<Rightarrow>
          if length ls < 2 then None
          else (case (strip_prefix ''  newName: '' (last (butlast ls)),
                      strip_prefix ''  newTag: '' (last ls)) of
                  (Some n, Some t) \<Rightarrow> Some (n @ '':'' @ t)
                | _ \<Rightarrow> None))"

text \<open>
  Modelled from the spec: the path patch sets the path of the first rule of the ingress,
  the host patch its host, the service account patch and the image entry the two fields
  of the deployment; a service is left as it is.
\<close>

fun patch_paths :: "string \<Rightarrow> http_path list \<Rightarrow> http_path list" where
  "patch_paths p [] = []"
| "patch_paths p (x # xs) = x\<lparr>path := p\<rparr> # xs"

fun patch_spec :: "string \<Rightarrow> string \<Rightarrow> string \<Rightarrow> string \<Rightarrow> spec \<Rightarrow> spec" where
  "patch_spec h p a img (DeploymentSpec d) = DeploymentSpec (d\<lparr>serviceAccountName := a, image := img\<rparr>)"
| "patch_spec h p a img (ServiceSpec s) = ServiceSpec s"
| "patch_spec h p a img (IngressSpec i) = IngressSpec (i\<lparr>host := h, paths := patch_paths p (paths i)\<rparr>)"

text \<open>
  Modelled from the spec: the build of a directory, which is the manifest of the
  directory with the four values in place; it fails when one of them cannot be read.
\<close>

definition kustomize_build :: "string \<Rightarrow> workspace \<Rightarrow> manifest option" where
  "kustomize_build dir w =
     (case (patch_value (files w) (dir @ ''host-patch.yaml''),
            patch_value (files w) (dir @ ''path-patch.yaml''),
            patch_value (files w) (dir @ ''svc-acc-patch.yaml''),
            image_of (files w) (dir @ ''kustomization.yaml'')) of
        (Some h, Some p, Some a, Some img) \<Rightarrow>
          Some (map (\<lambda>r. (fst r, patch_spec h p a img (snd r))) (yaml w))
      | _ \<Rightarrow> None)"

subsection \<open>Running a build\<close>

definition fail :: "build_state \<Rightarrow> build_state" where
  "fail s = s\<lparr>failed := True\<rparr>"

fun exec :: "aws \<Rightarrow> command \<Rightarrow> build_state \<Rightarrow> build_state" where
  "exec a (ExportLower v t) s = s\<lparr>vars := (vars s)(v \<mapsto> map tolower t)\<rparr>"
| "exec a (EchoAppend w f) s =
     s\<lparr>ws := (ws s)\<lparr>files := (files (ws s))
        (f \<mapsto> (case files (ws s) f of None \<Rightarrow> [] | Some ls \<Rightarrow> ls) @ [expand (vars s) w])\<rparr>\<rparr>"
| "exec a (Cp src dst) s =
     (case files (ws s) src of
        None \<Rightarrow> fail s
      | Some ls \<Rightarrow> s\<lparr>ws := (ws s)\<lparr>files := (files (ws s))(dst \<mapsto> ls)\<rparr>\<rparr>)"
| "exec a (KubectlApply dir w) s =
     (let ns = expand (vars s) w in
      if single_word ns \<and> ns \<in> namespaces (cl s)
      then (case kustomize_build dir (ws s) of
              None \<Rightarrow> fail s
            | Some m \<Rightarrow> s\<lparr>cl := (cl s)\<lparr>resources := apply_manifest ns m (resources (cl s))\<rparr>\<rparr>)
      else fail s)"
| "exec a (StartBuild p ovs) s =
     (if p \<in> set (map projectName (projects a))
      then s\<lparr>started := started s @ [(p, map (\<lambda>ov. (fst ov, expand (vars s) (snd ov))) ovs)]\<rparr>
      else fail s)"
| "exec a (Cdk w) s =
     (case cdk a (expand (vars s) w) (cl s) of
        None \<Rightarrow> fail s
      | Some c \<Rightarrow> s\<lparr>cl := c\<rparr>)"
| "exec a (External t) s = s"

text \<open>The commands of a phase run in order; a command that fails ends the phase.\<close>

fun exec_all :: "aws \<Rightarrow> command list \<Rightarrow> build_state \<Rightarrow> build_state" where
  "exec_all a [] s = s"
| "exec_all a (c # cs) s =
     (let s' = exec a c s in if failed s' then s' else exec_all a cs s')"

text \<open>
  A build starts from a fresh copy of the source and from the variables of the project,
  the overrides first. A failure in \<^verbatim>\<open>install\<close> or \<^verbatim>\<open>pre_build\<close> ends the build; after the
  \<^verbatim>\<open>build\<close> phase, failed or not, \<^verbatim>\<open>post_build\<close> runs.
\<close>

definition run_project ::
  "aws \<Rightarrow> codebuild_project \<Rightarrow> (string \<times> string) list \<Rightarrow> cluster \<Rightarrow> build_state" where
  "run_project a p overrides c =
     (let s0 = \<lparr>vars = map_of (overrides @ environmentVariables p), ws = source p, cl = c,
                started = [], failed = False\<rparr>;
          s1 = exec_all a (install p) s0
      in if failed s1 then s1
         else
           let s2 = exec_all a (pre_build p) s1
           in if failed s2 then s2
              else
                let s3 = exec_all a (build p) s2;
                    s4 = exec_all a (post_build p) (s3\<lparr>failed := False\<rparr>)
                in s4\<lparr>failed := failed s3 \<or> failed s4\<rparr>)"

text \<open>The builds that a build has started run the projects of those names.\<close>

fun find_project :: "string \<Rightarrow> codebuild_project list \<Rightarrow> codebuild_project option" where
  "find_project n [] = None"
| "find_project n (p # ps) = (if projectName p = n then Some p else find_project n ps)"

fun run_started :: "aws \<Rightarrow> (string \<times> (string \<times> string) list) list \<Rightarrow> cluster \<Rightarrow> cluster" where
  "run_started a [] c = c"
| "run_started a (r # rs) c =
     (case find_project (fst r) (projects a) of
        None \<Rightarrow> run_started a rs c
      | Some p \<Rightarrow> run_started a rs (cl (run_project a p (snd r) c)))"

section \<open>The constructs of the services stack\<close>

text \<open>
  What the stack resolves at deployment: the region, the account, and the URI of the
  image repository of a given name.
\<close>

record stack_env =
  region :: string
  account :: string
  repositoryUri :: "string \<Rightarrow> string"

text \<open>
  The properties of an application service. \<open>assetDirectory\<close> is the content of the
  directory that becomes the first commit of the service's repository.
\<close>

record ApplicationServiceProps =
  name :: string
  assetDirectory :: workspace
  ecrImageName :: string
  eksClusterName :: string
  internalApiDomain :: string
  serviceUrlPrefix :: string

text \<open>The project that deploys the service to the namespace of one tenant.\<close>

definition tenantDeployProject :: "stack_env \<Rightarrow> ApplicationServiceProps \<Rightarrow> codebuild_project" where
  "tenantDeployProject st props =
     \<lparr>projectName = name props @ ''TenantDeploy'',
      source = assetDirectory props,
      environmentVariables =
        [(''CLUSTER_NAME'', eksClusterName props),
         (''ECR_REPO_URI'', repositoryUri st (ecrImageName props)),
         (''AWS_REGION'', region st),
         (''AWS_ACCOUNT'', account st),
         (''SEVICE_IMAGE_NAME'', ecrImageName props),
         (''SERVICE_URL_PREFIX'', serviceUrlPrefix props),
         (''TENANT_ID'', '''')],
      install =
        [ExportLower ''API_HOST'' (internalApiDomain props),
         External ''curl -LO \"https://dl.k8s.io/release/$(curl -L -s https://dl.k8s.io/release/stable.txt)/bin/linux/amd64/kubectl\"'',
         External ''chmod +x ./kubectl''],
      pre_build = [],
      build =
        [External ''aws eks --region $AWS_REGION update-kubeconfig --name $CLUSTER_NAME'',
         EchoAppend [Lit ''  newName: '', Var ''ECR_REPO_URI''] ''kubernetes/kustomization.yaml'',
         EchoAppend [Lit ''  newTag: latest''] ''kubernetes/kustomization.yaml'',
         EchoAppend [Lit ''  value: '', Var ''API_HOST''] ''kubernetes/host-patch.yaml'',
         Cp ''kubernetes/path-patch-template.yaml'' ''kubernetes/path-patch.yaml'',
         EchoAppend [Lit ''  value: /'', Var ''TENANT_ID'', Lit ''/'', Var ''SERVICE_URL_PREFIX'']
           ''kubernetes/path-patch.yaml'',
         Cp ''kubernetes/svc-acc-patch-template.yaml'' ''kubernetes/svc-acc-patch.yaml'',
         EchoAppend [Lit ''  value: '', Var ''TENANT_ID'', Lit ''-service-account'']
           ''kubernetes/svc-acc-patch.yaml'',
         KubectlApply ''kubernetes/'' [Var ''TENANT_ID'']],
      post_build = []\<rparr>"

text \<open>The properties of the tenant onboarding construct.\<close>

record TenantOnboardingProps =
  onboardingProjectName :: string
  deletionProjectName :: string
  assetDirectory :: workspace
  eksClusterName :: string
  codebuildKubectlRoleArn :: string
  eksClusterOIDCProviderArn :: string
  applicationServiceBuildProjectNames :: "string list"
  appSiteDistributionId :: string
  appSiteCloudFrontDomain :: string
  appSiteCustomDomain :: "string option"
  appSiteHostedZoneId :: "string option"

text \<open>
  \<open>onboardingCfnParams\<close> and \<open>cfnParamString\<close>: the parameters of the tenant stack, each as
  \<^verbatim>\<open>--parameters key=value\<close>, joined by blanks.
\<close>

definition onboardingCfnParams :: "TenantOnboardingProps \<Rightarrow> (string \<times> shword) list" where
  "onboardingCfnParams props =
     [(''TenantId'', [Var ''TENANT_ID'']),
      (''CompanyName'', [Lit ''\"'', Var ''COMPANY_NAME'', Lit ''\"'']),
      (''TenantAdminEmail'', [Lit ''\"'', Var ''ADMIN_EMAIL'', Lit ''\"'']),
      (''AppDistributionId'', [Lit (''\"'' @ appSiteDistributionId props @ ''\"'')]),
      (''DistributionDomain'', [Lit (''\"'' @ appSiteCloudFrontDomain props @ ''\"'')]),
      (''EKSClusterName'', [Lit (''\"'' @ TenantOnboardingProps.eksClusterName props @ ''\"'')]),
      (''KubectlRoleArn'', [Lit (''\"'' @ codebuildKubectlRoleArn props @ ''\"'')]),
      (''OIDCProviderArn'', [Lit (''\"'' @ eksClusterOIDCProviderArn props @ ''\"'')])]"

fun join_words :: "shword list \<Rightarrow> shword" where
  "join_words [] = []"
| "join_words [w] = w"
| "join_words (w # rest) = w @ [Lit '' ''] @ join_words rest"

definition cfnParamString :: "TenantOnboardingProps \<Rightarrow> shword" where
  "cfnParamString props =
     join_words (map (\<lambda>x. [Lit (''--parameters '' @ fst x @ ''='')] @ snd x)
       (onboardingCfnParams props))"

text \<open>
  The onboarding project. Its last phase starts, for every name \<open>x\<close> of
  \<open>applicationServiceBuildProjectNames\<close>, the project \<open>x\<close>\<^verbatim>\<open>TenantDeploy\<close> with the one
  override \<^verbatim>\<open>TENANT_ID\<close>.
\<close>

definition onboardingProject :: "stack_env \<Rightarrow> TenantOnboardingProps \<Rightarrow> codebuild_project" where
  "onboardingProject st props =
     \<lparr>projectName = onboardingProjectName props,
      source = TenantOnboardingProps.assetDirectory props,
      environmentVariables =
        [(''TENANT_ID'', ''''),
         (''COMPANY_NAME'', ''''),
         (''ADMIN_EMAIL'', ''''),
         (''PLAN'', ''''),
         (''AWS_ACCOUNT'', account st),
         (''AWS_REGION'', region st),
         (''APP_SITE_CUSTOM_DOMAIN'', (case appSiteCustomDomain props of None \<Rightarrow> '''' | Some d \<Rightarrow> d)),
         (''APP_SITE_HOSTED_ZONE'', (case appSiteHostedZoneId props of None \<Rightarrow> '''' | Some z \<Rightarrow> z))],
      install = [External ''npm i''],
      pre_build = [],
      build =
        [External ''npm run cdk bootstrap'',
         Cdk ([Lit ''deploy TenantStack-'', Var ''TENANT_ID'', Lit '' -- --require-approval=never '']
              @ cfnParamString props)],
      post_build =
        map (\<lambda>x. StartBuild (x @ ''TenantDeploy'') [(''TENANT_ID'', [Var ''TENANT_ID''])])
          (applicationServiceBuildProjectNames props)\<rparr>"

text \<open>The deletion project.\<close>

definition tenantDeletionProject :: "stack_env \<Rightarrow> TenantOnboardingProps \<Rightarrow> codebuild_project" where
  "tenantDeletionProject st props =
     \<lparr>projectName = deletionProjectName props,
      source = TenantOnboardingProps.assetDirectory props,
      environmentVariables =
        [(''TENANT_ID'', ''''),
         (''AWS_ACCOUNT'', account st),
         (''AWS_REGION'', region st)],
      install = [External ''npm i''],
      pre_build = [],
      build =
        [External ''npm run cdk bootstrap'',
         Cdk [Lit ''destroy TenantStack-'', Var ''TENANT_ID'', Lit '' -- --require-approval=never -f'']],
      post_build = []\<rparr>"

subsection \<open>The services stack\<close>

text \<open>
  The properties of the stack. The three asset directories stand for
  \<^verbatim>\<open>services/application-services/product-service\<close>,
  \<^verbatim>\<open>services/application-services/order-service\<close> and \<^verbatim>\<open>services/tenant-onboarding\<close>.
\<close>

record ServicesStackProps =
  internalNLBApiDomain :: string
  eksClusterName :: string
  eksClusterOIDCProviderArn :: string
  codebuildKubectlRoleArn :: string
  appSiteDistributionId :: string
  appSiteCloudFrontDomain :: string
  sharedServiceAccountName :: string
  appHostedZoneId :: "string option"
  customDomain :: "string option"
  productServiceDirectory :: workspace
  orderServiceDirectory :: workspace
  tenantOnboardingDirectory :: workspace

definition productSvc :: "ServicesStackProps \<Rightarrow> ApplicationServiceProps" where
  "productSvc props =
     \<lparr>name = ''ProductService'',
      assetDirectory = productServiceDirectory props,
      ecrImageName = ''product-svc'',
      eksClusterName = ServicesStackProps.eksClusterName props,
      internalApiDomain = internalNLBApiDomain props,
      serviceUrlPrefix = ''products''\<rparr>"

definition orderSvc :: "ServicesStackProps \<Rightarrow> ApplicationServiceProps" where
  "orderSvc props =
     \<lparr>name = ''OrderService'',
      assetDirectory = orderServiceDirectory props,
      ecrImageName = ''order-svc'',
      eksClusterName = ServicesStackProps.eksClusterName props,
      internalApiDomain = internalNLBApiDomain props,
      serviceUrlPrefix = ''orders''\<rparr>"

definition onboardingSvc :: "ServicesStackProps \<Rightarrow> TenantOnboardingProps" where
  "onboardingSvc props =
     \<lparr>onboardingProjectName = ''TenantOnboardingProject'',
      deletionProjectName = ''TenantDeletionProject'',
      assetDirectory = tenantOnboardingDirectory props,
      eksClusterName = ServicesStackProps.eksClusterName props,
      codebuildKubectlRoleArn = ServicesStackProps.codebuildKubectlRoleArn props,
      eksClusterOIDCProviderArn = ServicesStackProps.eksClusterOIDCProviderArn props,
      applicationServiceBuildProjectNames = [''ProductService'', ''OrderService''],
      appSiteDistributionId = ServicesStackProps.appSiteDistributionId props,
      appSiteCloudFrontDomain = ServicesStackProps.appSiteCloudFrontDomain props,
      appSiteCustomDomain =
        (case customDomain props of
           None \<Rightarrow> None
         | Some d \<Rightarrow> if d = [] then None else Some (''app.'' @ d)),
      appSiteHostedZoneId = appHostedZoneId props\<rparr>"

text \<open>
  The projects of the stack that take part in the life of a tenant, and the account that
  holds them. The projects that build the images of the services have other names.
\<close>

definition ServicesStack :: "stack_env \<Rightarrow> ServicesStackProps \<Rightarrow> codebuild_project list" where
  "ServicesStack st props =
     [tenantDeployProject st (productSvc props),
      tenantDeployProject st (orderSvc props),
      onboardingProject st (onboardingSvc props),
      tenantDeletionProject st (onboardingSvc props)]"

definition account_of ::
  "stack_env \<Rightarrow> ServicesStackProps \<Rightarrow> (string \<Rightarrow> cluster \<Rightarrow> cluster option) \<Rightarrow> aws" where
  "account_of st props tenantStack = \<lparr>projects = ServicesStack st props, cdk = tenantStack\<rparr>"

text \<open>
  The directory of an application service: the manifest of the sources, and the four
  files of the \<^verbatim>\<open>kubernetes\<close> directory that the build reads, whose lines are not among
  the sources and stay arbitrary.
\<close>

record kustomize_files =
  kustomization :: "string list"
  host_patch :: "string list"
  path_patch_template :: "string list"
  svc_acc_patch_template :: "string list"

definition service_directory :: "manifest \<Rightarrow> kustomize_files \<Rightarrow> workspace" where
  "service_directory m k =
     \<lparr>files = [''kubernetes/kustomization.yaml'' \<mapsto> kustomization k,
                ''kubernetes/host-patch.yaml'' \<mapsto> host_patch k,
                ''kubernetes/path-patch-template.yaml'' \<mapsto> path_patch_template k,
                ''kubernetes/svc-acc-patch-template.yaml'' \<mapsto> svc_acc_patch_template k],
      yaml = m\<rparr>"

text \<open>The stack properties with the two service directories of the sources.\<close>

definition with_sources ::
  "ServicesStackProps \<Rightarrow> kustomize_files \<Rightarrow> kustomize_files \<Rightarrow> ServicesStackProps" where
  "with_sources props kp ko =
     props\<lparr>productServiceDirectory := service_directory product_service_yaml kp,
           orderServiceDirectory := service_directory order_service_yaml ko\<rparr>"

text \<open>
  The routing of one tenant is published by the two tenant deployments that the
  onboarding project starts.
\<close>

definition tenant_deploy_requests :: "string \<Rightarrow> (string \<times> (string \<times> string) list) list" where
  "tenant_deploy_requests tid =
     [(''ProductServiceTenantDeploy'', [(''TENANT_ID'', tid)]),
      (''OrderServiceTenantDeploy'', [(''TENANT_ID'', tid)])]"

text \<open>The fragment that a tenant deployment generates: the build of its directory.\<close>

definition generated_fragment ::
  "aws \<Rightarrow> codebuild_project \<Rightarrow> string \<Rightarrow> cluster \<Rightarrow> manifest option" where
  "generated_fragment a p tid c =
     kustomize_build ''kubernetes/'' (ws (run_project a p [(''TENANT_ID'', tid)] c))"

text \<open>The characters of a tenant identifier, as bytes.\<close>

definition tenant_char :: "char \<Rightarrow> bool" where
  "tenant_char c =
     (let n = of_char c :: nat in (97 \<le> n \<and> n \<le> 122) \<or> (48 \<le> n \<and> n \<le> 57) \<or> n = 95)"

text \<open>
  The overlay of a service for a tenant: the manifest of the service with the shared API
  host, the path of the tenant, the service account of the tenant and the latest image.
\<close>

definition tenant_overlay :: "stack_env \<Rightarrow> ApplicationServiceProps \<Rightarrow> string \<Rightarrow> manifest" where
  "tenant_overlay st props tid =
     map (\<lambda>r. (fst r,
        patch_spec (map tolower (internalApiDomain props))
          (''/'' @ tid @ ''/'' @ serviceUrlPrefix props)
          (tid @ ''-service-account'')
          (repositoryUri st (ecrImageName props) @ '':latest'')
          (snd r)))
       (yaml (ApplicationServiceProps.assetDirectory props))"

section \<open>The tenant lifecycle of the specification\<close>

text \<open>
  The services that register tenants and drive their lifecycle (tenant registration,
  tenant management) and the tenant stack are not among the sources: of the lifecycle
  the sources hold the registry table, keyed by \<^verbatim>\<open>TENANT_ID\<close>, and the two build projects.
  The definitions of this section follow the words of the specification.
\<close>

text \<open>
  Modelled from the spec: the data model of section 3. The status of a tenant is ``one of
  \<open>Provisioning\<close>, \<open>Active\<close>, \<open>Deprovisioning\<close>, \<open>Deleted\<close>, or \<open>Failed\<close>''; a plan is
  pooled-tier or silo-tier; the failures are those of section 7, a failed stage carrying
  its number; a deployment is \<open>Pending\<close>, \<open>Deployed\<close> or failed.
\<close>

datatype status = Provisioning | Active | Deprovisioning | Deleted | Failed

datatype tier = PooledTier | SiloTier

datatype failure =
  ValidationError | ResourceConflict | ProvisioningFailure nat | NotFound | InvalidState

datatype deployment_status = Pending | Deployed | DeployFailed

record Tenant =
  TENANT_ID :: string
  companyName :: jsstring
  adminEmail :: jsstring
  plan :: tier
  status :: status
  createdAt :: nat

text \<open>
  Modelled from the spec: the stores of the orchestrator. The registry is the items of a
  table ``keyed by \<^verbatim>\<open>TENANT_ID\<close> (partition key)'', as the table of the common resources
  stack is: an item is read by its key (\<open>map_of\<close>) and is put under its key (\<open>map_set\<close>),
  in the place of the item of that key when there is one. The routing is the ingresses
  of the cluster; a tenant-scoped data resource is known by its name; there is one
  deployment record for a tenant and a service.
\<close>

record platform =
  registry :: "(string \<times> Tenant) list"
  routing :: cluster
  tenantResources :: "string set"
  identities :: "string set"
  deploymentRecords :: "string \<times> string \<rightharpoonup> deployment_status"

text \<open>
  Modelled from the spec: the downstream services, ``the product and order services'',
  with their URL prefixes and, for a silo service, the kind of its tenant-scoped
  resource (``a resource name templated as \<^verbatim>\<open><ResourceKind>-<TENANT_ID>\<close>'').
\<close>

record downstream =
  serviceName :: string
  urlPrefix :: string
  resourceKind :: "string option"

definition downstream_services :: "downstream list" where
  "downstream_services =
     [\<lparr>serviceName = ''product'', urlPrefix = ''products'', resourceKind = None\<rparr>,
      \<lparr>serviceName = ''order'', urlPrefix = ''orders'', resourceKind = Some ''Order''\<rparr>]"

text \<open>
  Modelled from the spec: the names of the tenant-scoped data resources of a tenant, one
  for every silo service.
\<close>

definition resource_names :: "string \<Rightarrow> string list" where
  "resource_names tid =
     concat (map (\<lambda>s. case resourceKind s of None \<Rightarrow> [] | Some k \<Rightarrow> [k @ ''-'' @ tid])
       downstream_services)"

text \<open>
  Modelled from the spec: \<open>GenerateRoutes\<close>, ``for each service with a known URL prefix,
  emits a route rule \<^verbatim>\<open>{host: <shared API host>, path: /{tenantId}/{servicePrefix},
  backend: <service>}\<close>'', each rule a minion fragment of its own.
\<close>

definition fragment_name :: "downstream \<Rightarrow> string" where
  "fragment_name s = serviceName s @ ''-service-ingress''"

definition GenerateRoutes :: "string \<Rightarrow> string \<Rightarrow> downstream list \<Rightarrow> manifest" where
  "GenerateRoutes apiHost tid serviceList =
     map (\<lambda>s. (fragment_name s,
        IngressSpec \<lparr>ingress_class = ''nginx'', mergeable_type = Minion, host = apiHost,
          paths = [\<lparr>path = ''/'' @ tid @ ''/'' @ urlPrefix s, pathType = ''Prefix'',
                    backend_service = serviceName s @ ''-service'', backend_port = 80\<rparr>]\<rparr>))
       serviceList"

text \<open>
  Modelled from the spec: publishing the rules of a tenant applies its fragments, each in
  the namespace of the tenant; the master is not written.
\<close>

definition PublishRoutes :: "string \<Rightarrow> string \<Rightarrow> downstream list \<Rightarrow> cluster \<Rightarrow> cluster" where
  "PublishRoutes apiHost tid serviceList c =
     c\<lparr>resources := apply_manifest tid (GenerateRoutes apiHost tid serviceList) (resources c)\<rparr>"

text \<open>
  Modelled from the spec: \<open>RemoveRoutes\<close> ``deletes exactly the fragments for that
  tenant'': the fragment of each service of the list, in the namespace of the tenant.
\<close>

definition RemoveRoutes :: "string \<Rightarrow> downstream list \<Rightarrow> cluster \<Rightarrow> cluster" where
  "RemoveRoutes tid serviceList c =
     c\<lparr>resources := (\<lambda>key.
        if fst key = tid \<and> fst (snd key) = Ingress \<and>
           snd (snd key) \<in> set (map fragment_name serviceList)
        then None else resources c key)\<rparr>"

text \<open>
  Modelled from the spec: what an invocation of a pipeline meets, the stages being calls
  to external collaborators: the outcome of each stage (a fault makes the
  stage fail and leaves what the stage writes as it was), the time, the shared API host,
  the test of an e-mail address, and the Unicode tables of \<open>toLowerCase\<close>.
\<close>

record invocation =
  unicodeTables :: "jsstring \<Rightarrow> jsstring"
  wellFormed :: "jsstring \<Rightarrow> bool"
  apiHost :: string
  now :: nat
  resourcesFault :: bool
  identityFault :: bool
  routingFault :: bool
  deployFault :: "string \<Rightarrow> bool"
  removalFault :: bool
  teardownFault :: bool

text \<open>
  Modelled from the spec: ``\<open>tenantId = slug(companyName)\<close>'', with the derivation of
  the register component; the identifier is ASCII and is kept as bytes.
\<close>

definition slug :: "invocation \<Rightarrow> jsstring \<Rightarrow> string" where
  "slug i cn = map (\<lambda>c. char_of (unat c)) (tenantId (unicodeTables i) cn)"

text \<open>Modelled from the spec: ``\<open>plan\<close> in the allowed set'', pooled or silo.\<close>

definition parse_plan :: "string \<Rightarrow> tier option" where
  "parse_plan p =
     (if p = ''pooled'' then Some PooledTier else if p = ''silo'' then Some SiloTier else None)"

text \<open>Modelled from the spec: a change of the status of the record of a tenant.\<close>

definition set_status :: "string \<Rightarrow> status \<Rightarrow> platform \<Rightarrow> platform" where
  "set_status tid st p =
     (case map_of (registry p) tid of
        None \<Rightarrow> p
      | Some t \<Rightarrow> p\<lparr>registry := map_set tid (t\<lparr>status := st\<rparr>) (registry p)\<rparr>)"

text \<open>
  Modelled from the spec: \<open>DeploymentFanout\<close>, one record for every service of the
  list, \<open>Deployed\<close> or failed, no service holding back another.
\<close>

definition Deploy :: "invocation \<Rightarrow> string \<Rightarrow> downstream list \<Rightarrow> (string \<times> deployment_status) list" where
  "Deploy i tid serviceList =
     map (\<lambda>s. (serviceName s, if deployFault i (serviceName s) then DeployFailed else Deployed))
       serviceList"

fun record_deployments ::
  "string \<Rightarrow> (string \<times> deployment_status) list \<Rightarrow> (string \<times> string \<rightharpoonup> deployment_status) \<Rightarrow>
   (string \<times> string \<rightharpoonup> deployment_status)" where
  "record_deployments tid [] recs = recs"
| "record_deployments tid (r # rs) recs = record_deployments tid rs (recs((tid, fst r) \<mapsto> snd r))"

text \<open>
  Modelled from the spec: \<open>Onboard(companyName, adminEmail, plan)\<close>. Validation comes
  before any mutation; a tenant of the derived identifier that is not \<open>Failed\<close> is a
  conflict; the record is inserted in status \<open>Provisioning\<close>; the stages run in order,
  the failure of one ending the invocation with the tenant \<open>Failed\<close> and the earlier
  outputs in place; a failed deployment does not fail the onboarding.
\<close>

definition Onboard ::
  "invocation \<Rightarrow> platform \<Rightarrow> jsstring \<Rightarrow> jsstring \<Rightarrow> string \<Rightarrow>
   (string \<times> (failure + (string \<times> deployment_status) list)) \<times> platform" where
  "Onboard i p cn email planName =
     (case parse_plan planName of
        None \<Rightarrow> (('''', Inl ValidationError), p)
      | Some pl \<Rightarrow>
        if cn = [] \<or> \<not> wellFormed i email then (('''', Inl ValidationError), p)
        else
          let tid = slug i cn in
          if (case map_of (registry p) tid of None \<Rightarrow> False | Some t \<Rightarrow> status t \<noteq> Failed)
          then ((tid, Inl ResourceConflict), p)
          else
            let p0 = p\<lparr>registry := map_set tid
                       \<lparr>TENANT_ID = tid, companyName = cn, adminEmail = email, plan = pl,
                        status = Provisioning, createdAt = now i\<rparr> (registry p)\<rparr>
            in if resourcesFault i then ((tid, Inl (ProvisioningFailure 1)), set_status tid Failed p0)
               else
                 let p1 = p0\<lparr>tenantResources := tenantResources p0 \<union> set (resource_names tid)\<rparr>
                 in if identityFault i
                    then ((tid, Inl (ProvisioningFailure 2)), set_status tid Failed p1)
                    else
                      let p2 = p1\<lparr>identities := insert (tid @ ''-service-account'') (identities p1)\<rparr>
                      in if routingFault i
                         then ((tid, Inl (ProvisioningFailure 3)), set_status tid Failed p2)
                         else
                           let p3 = p2\<lparr>routing := PublishRoutes (apiHost i) tid downstream_services
                                          (routing p2)\<rparr>;
                               ds = Deploy i tid downstream_services;
                               p4 = p3\<lparr>deploymentRecords :=
                                          record_deployments tid ds (deploymentRecords p3)\<rparr>
                           in ((tid, Inr ds), set_status tid Active p4))"

text \<open>
  Modelled from the spec: \<open>Deprovision(tenantId)\<close>. ``Fails with \<open>NotFound\<close> if no Tenant
  record exists, or \<open>InvalidState\<close> if Tenant is already \<open>Deleted\<close>''; then the status is
  \<open>Deprovisioning\<close>, the routes are removed and the tenant-scoped data resources torn
  down, each stage attempted whatever the other did; the status is \<open>Deleted\<close> when both
  succeeded and \<open>Failed\<close> otherwise.
\<close>

definition Deprovision :: "invocation \<Rightarrow> platform \<Rightarrow> string \<Rightarrow> (failure + unit) \<times> platform" where
  "Deprovision i p tid =
     (case map_of (registry p) tid of
        None \<Rightarrow> (Inl NotFound, p)
      | Some t \<Rightarrow>
          if status t = Deleted then (Inl InvalidState, p)
          else
            let p0 = set_status tid Deprovisioning p;
                p1 = (if removalFault i then p0
                      else p0\<lparr>routing := RemoveRoutes tid downstream_services (routing p0)\<rparr>);
                p2 = (if teardownFault i then p1
                      else p1\<lparr>tenantResources := tenantResources p1 - set (resource_names tid)\<rparr>)
            in if removalFault i then (Inl (ProvisioningFailure 1), set_status tid Failed p2)
               else if teardownFault i then (Inl (ProvisioningFailure 2), set_status tid Failed p2)
               else (Inr (), set_status tid Deleted p2))"

text \<open>
  Modelled from the spec: ``exactly one Tenant record per \<open>tenantId\<close>''. No two items of
  the registry have the same key, and every record is stored under its own tenant
  identifier; \<open>records_of\<close> are the records of a tenant identifier.
\<close>

definition registry_ok :: "platform \<Rightarrow> bool" where
  "registry_ok p =
     (distinct (map fst (registry p)) \<and>
      list_all (\<lambda>item. TENANT_ID (snd item) = fst item) (registry p))"

definition records_of :: "platform \<Rightarrow> string \<Rightarrow> Tenant list" where
  "records_of p tid = filter (\<lambda>t. TENANT_ID t = tid) (map snd (registry p))"

section \<open>An example deployment\<close>

definition example_stack_env :: stack_env where
  "example_stack_env =
     \<lparr>region = ''us-east-1'', account = ''111122223333'',
      repositoryUri = (\<lambda>n. ''111122223333.dkr.ecr.us-east-1.amazonaws.com/'' @ n)\<rparr>"

definition example_kustomize_files :: kustomize_files where
  "example_kustomize_files =
     \<lparr>kustomization = [''images:'', ''- name: KUSTOMIZE_IMAGE''],
      host_patch = [''- op: replace'', ''  path: /spec/rules/0/host''],
      path_patch_template = [''- op: replace'', ''  path: /spec/rules/0/http/paths/0/path''],
      svc_acc_patch_template = [''- op: replace'', ''  path: /spec/template/spec/serviceAccountName'']\<rparr>"

definition example_base_props :: ServicesStackProps where
  "example_base_props =
       \<lparr>internalNLBApiDomain = ''Api.Example.com'',
        eksClusterName = ''eks-saas'',
        eksClusterOIDCProviderArn = ''arn:oidc'',
        codebuildKubectlRoleArn = ''arn:role'',
        appSiteDistributionId = ''E1'',
        appSiteCloudFrontDomain = ''d1.cloudfront.net'',
        sharedServiceAccountName = ''shared-service-account'',
        appHostedZoneId = None,
        customDomain = None,
        productServiceDirectory = \<lparr>files = Map.empty, yaml = []\<rparr>,
        orderServiceDirectory = \<lparr>files = Map.empty, yaml = []\<rparr>,
        tenantOnboardingDirectory = \<lparr>files = Map.empty, yaml = []\<rparr>\<rparr>"

definition example_props :: ServicesStackProps where
  "example_props = with_sources example_base_props example_kustomize_files example_kustomize_files"

text \<open>
  A cluster with the primary ingress and the namespaces of two tenants, and the account
  of the example, in which the deployment of a tenant stack leaves the cluster as it is.
\<close>

definition example_cluster :: cluster where
  "example_cluster =
     \<lparr>namespaces = {''default'', ''acmecorp'', ''globex''},
      resources = [master_key \<mapsto> PrimarySameHostMergableIngress ''api.example.com'']\<rparr>"

definition example_account :: aws where
  "example_account = account_of example_stack_env example_props (\<lambda>args c. Some c)"

definition example_invocation :: invocation where
  "example_invocation =
     \<lparr>unicodeTables = id, wellFormed = (\<lambda>e. 0x40 \<in> set e),
      apiHost = ''api.example.com'', now = 0, resourcesFault = False, identityFault = False,
      routingFault = False, deployFault = (\<lambda>s. False), removalFault = False,
      teardownFault = False\<rparr>"

definition example_platform :: platform where
  "example_platform =
     \<lparr>registry = [], routing = example_cluster, tenantResources = {},
      identities = {}, deploymentRecords = Map.empty\<rparr>"

text \<open>The example cluster after the routing of \<^verbatim>\<open>globex\<close> was published.\<close>

definition globex_published :: cluster where
  "globex_published =
     run_started example_account (tenant_deploy_requests ''globex'') example_cluster"

text \<open>The example platform after the onboarding of the company \<^verbatim>\<open>Acme Corp!\<close>.\<close>

definition acme_onboarded :: platform where
  "acme_onboarded =
     snd (Onboard example_invocation example_platform (js ''Acme Corp!'') (js ''a@acme.com'')
            ''pooled'')"

section \<open>Properties of the tenant identifier\<close>

lemma whitespace_not_word: "isWhiteSpace c \<Longrightarrow> \<not> isWordChar c"
  by (auto simp: isWhiteSpace_def isWordChar_def isDigit_def isUpper_def isLower_def)

lemma re_class_eq: "re_class c = (\<not> isWordChar c)"
  using whitespace_not_word by (auto simp: re_class_def)

lemma replace_class_empty: "replace_class p [] s = filter (\<lambda>c. \<not> p c) s"
proof (induction p "[] :: jsstring" s rule: replace_class.induct)
  case (1 p)
  show ?case by simp
next
  case (2 p c cs)
  have drop: "filter (\<lambda>c. \<not> p c) (dropWhile p cs) = filter (\<lambda>c. \<not> p c) cs"
    by (induction cs) auto
  from 2 show ?case by (simp add: drop)
qed

lemma word_ascii: "isWordChar c \<Longrightarrow> c < 0x80"
  by (auto simp: isWordChar_def isDigit_def isUpper_def isLower_def
      word_le_nat_alt word_less_nat_alt)

lemma upper_add:
  "0x41 \<le> c \<Longrightarrow> c \<le> 0x5A \<Longrightarrow> unat (c + 0x20 :: 16 word) = unat c + 32"
  by (simp add: word_le_nat_alt unat_add_lem [THEN iffD1])

lemma asciiLower_slug: "isWordChar c \<Longrightarrow> isSlugChar (asciiLower c)"
  unfolding isWordChar_def isSlugChar_def asciiLower_def isDigit_def isUpper_def isLower_def
  by (auto simp: word_le_nat_alt upper_add)

lemma slug_word: "isSlugChar c \<Longrightarrow> isWordChar c"
  by (auto simp: isSlugChar_def isWordChar_def)

lemma asciiLower_fix: "isSlugChar c \<Longrightarrow> asciiLower c = c"
  unfolding isSlugChar_def asciiLower_def isDigit_def isUpper_def isLower_def
  by (auto simp: word_le_nat_alt)

lemma tenantId_eq:
  "tenantId unicodeLower s = map asciiLower (filter isWordChar s)"
proof -
  have "replace_class re_class [] s = filter isWordChar s"
    by (simp add: replace_class_empty re_class_eq)
  moreover have "list_all (\<lambda>c. c < 0x80) (filter isWordChar s)"
    by (simp add: list_all_iff word_ascii)
  ultimately show ?thesis
    by (simp add: tenantId_def toLowerCase_def)
qed

lemma tenantId_slug_chars: "list_all isSlugChar (tenantId unicodeLower s)"
  by (simp add: tenantId_eq list_all_iff asciiLower_slug)

lemma tenantId_fix:
  "list_all isSlugChar s \<Longrightarrow> tenantId unicodeLower s = s"
proof -
  assume a: "list_all isSlugChar s"
  then have "filter isWordChar s = s"
    by (simp add: list_all_iff slug_word)
  moreover from a have "map asciiLower s = s"
    by (simp add: list_all_iff asciiLower_fix map_idI)
  ultimately show ?thesis by (simp add: tenantId_eq)
qed

lemmas js_eval = js_def isWordChar_def isDigit_def isUpper_def isLower_def isAlnum_def
  isSlugChar_def asciiLower_def

text \<open>
  C1 (as stated). The specification's derivation strips every non-alphanumeric code unit.
  The code keeps the underscore, which \<^verbatim>\<open>\W\<close> does not match: for the company name
  \<^verbatim>\<open>Acme_Corp\<close> the tenant identifier is \<^verbatim>\<open>acme_corp\<close>, where the specification's
  derivation gives \<^verbatim>\<open>acmecorp\<close>.
\<close>

theorem tenantId_keeps_underscore:
  "tenantId id (js ''Acme_Corp'') = js ''acme_corp'' \<and>
   slug_spec (js ''Acme_Corp'') = js ''acmecorp'' \<and>
   tenantId id (js ''Acme_Corp'') \<noteq> slug_spec (js ''Acme_Corp'')"
  by (simp add: tenantId_eq slug_spec_def js_eval)

text \<open>
  C1 (amended). For every company name the tenant identifier is the company name with
  every code unit other than an ASCII letter, an ASCII digit or the underscore removed
  (whitespace included), and with the ASCII capitals lower-cased; it consists of
  lower-case ASCII letters, digits and underscores only; it does not depend on anything
  but the company name; and \<^verbatim>\<open>Acme Corp!\<close> yields \<^verbatim>\<open>acmecorp\<close>.
\<close>

theorem tenantId_derivation:
  "tenantId unicodeLower cn = map asciiLower (filter isWordChar cn) \<and>
   tenantId unicodeLower cn = tenantId unicodeLower' cn \<and>
   list_all isSlugChar (tenantId unicodeLower cn) \<and>
   filter isWhiteSpace (tenantId unicodeLower cn) = [] \<and>
   tenantId unicodeLower (js ''Acme Corp!'') = js ''acmecorp''"
proof -
  have ws: "filter isWhiteSpace (tenantId unicodeLower cn) = []"
    using tenantId_slug_chars [of unicodeLower cn]
    by (auto simp: filter_empty_conv list_all_iff dest: slug_word whitespace_not_word)
  have ex: "tenantId unicodeLower (js ''Acme Corp!'') = js ''acmecorp''"
    by (simp add: tenantId_eq js_eval)
  show ?thesis
    using ws ex by (simp add: tenantId_slug_chars) (simp add: tenantId_eq)
qed

text \<open>
  C8. The slug function is idempotent: deriving the identifier of an identifier gives the
  identifier back. It is a function of its input, so equal inputs give equal outputs.
\<close>

theorem tenantId_idempotent:
  "tenantId unicodeLower (tenantId unicodeLower x) = tenantId unicodeLower x"
  by (rule tenantId_fix) (rule tenantId_slug_chars)

section \<open>Properties of the auth interceptor\<close>

lemma map_of_map_set: "map_of (map_set k v al) = (map_of al)(k \<mapsto> v)"
  by (induction al) (auto simp: fun_eq_iff)

lemma filter_map_set:
  "filter (\<lambda>p. fst p \<noteq> k) (map_set k v al) = filter (\<lambda>p. fst p \<noteq> k) al"
  by (induction al) auto

lemma map_of_filter_other:
  "k' \<noteq> k \<Longrightarrow> map_of (filter (\<lambda>p. fst p \<noteq> k) al) k' = map_of al k'"
  by (induction al) auto

lemma filter_maybeSetNormalizedName:
  "filter (\<lambda>p. fst p \<noteq> k) (maybeSetNormalizedName nm k names) =
   filter (\<lambda>p. fst p \<noteq> k) names"
  by (simp add: maybeSetNormalizedName_def filter_map_set split: option.split)

lemma lower_Authorization:
  "toLowerCase unicodeLower (js ''Authorization'') = js ''authorization''"
  by (simp add: toLowerCase_def js_eval)

lemma headers_get_set:
  "headers_get unicodeLower
     (headers_set unicodeLower (js ''Authorization'') v h) (js ''Authorization'') = Some v"
  by (simp add: headers_get_def headers_set_def Let_def map_of_map_set)

lemma headers_set_others:
  "filter (\<lambda>p. fst p \<noteq> js ''authorization'')
     (headers_map (headers_set unicodeLower (js ''Authorization'') v h)) =
   filter (\<lambda>p. fst p \<noteq> js ''authorization'') (headers_map h)"
  "filter (\<lambda>p. fst p \<noteq> js ''authorization'')
     (normalizedNames (headers_set unicodeLower (js ''Authorization'') v h)) =
   filter (\<lambda>p. fst p \<noteq> js ''authorization'') (normalizedNames h)"
  by (simp_all add: headers_set_def Let_def lower_Authorization filter_map_set
      filter_maybeSetNormalizedName)

text \<open>
  C9. When no ID token is available (none, or the empty string) or the URL of the request
  contains \<^verbatim>\<open>amazoncognito\<close>, the interceptor hands the request on as it is. Otherwise
  it hands on a request that differs from the original in its headers only; there the
  header \<^verbatim>\<open>Authorization\<close> has the value \<^verbatim>\<open>Bearer \<close> followed by the token, and the
  entries of every other header, in their order, are those of the original.
\<close>

theorem intercept_frame:
  fixes req :: "('b, 'p, 'c) HttpRequest"
  shows
    "(falsy token \<or> str_includes (url req) (js ''amazoncognito'') \<longrightarrow>
        intercept unicodeLower token req next_handle = next_handle req) \<and>
     (token = Some t \<and> t \<noteq> [] \<and> \<not> str_includes (url req) (js ''amazoncognito'') \<longrightarrow>
        (\<exists>h. intercept unicodeLower token req next_handle = next_handle (req\<lparr>headers := h\<rparr>) \<and>
             headers_get unicodeLower h (js ''Authorization'') = Some (js ''Bearer '' @ t) \<and>
             filter (\<lambda>p. fst p \<noteq> js ''authorization'') (headers_map h) =
               filter (\<lambda>p. fst p \<noteq> js ''authorization'') (headers_map (headers req)) \<and>
             filter (\<lambda>p. fst p \<noteq> js ''authorization'') (normalizedNames h) =
               filter (\<lambda>p. fst p \<noteq> js ''authorization'') (normalizedNames (headers req))))"
proof (intro conjI impI)
  assume "falsy token \<or> str_includes (url req) (js ''amazoncognito'')"
  then show "intercept unicodeLower token req next_handle = next_handle req"
    by (simp add: intercept_def)
next
  assume a: "token = Some t \<and> t \<noteq> [] \<and> \<not> str_includes (url req) (js ''amazoncognito'')"
  let ?h = "headers_set unicodeLower (js ''Authorization'') (js ''Bearer '' @ t) (headers req)"
  from a have "intercept unicodeLower token req next_handle = next_handle (req\<lparr>headers := ?h\<rparr>)"
    by (simp add: intercept_def falsy_def clone_headers_def)
  then show "\<exists>h. intercept unicodeLower token req next_handle = next_handle (req\<lparr>headers := h\<rparr>) \<and>
      headers_get unicodeLower h (js ''Authorization'') = Some (js ''Bearer '' @ t) \<and>
      filter (\<lambda>p. fst p \<noteq> js ''authorization'') (headers_map h) =
        filter (\<lambda>p. fst p \<noteq> js ''authorization'') (headers_map (headers req)) \<and>
      filter (\<lambda>p. fst p \<noteq> js ''authorization'') (normalizedNames h) =
        filter (\<lambda>p. fst p \<noteq> js ''authorization'') (normalizedNames (headers req))"
    using headers_get_set headers_set_others by blast
qed

text \<open>
  The theorem at the example request: without a token the request comes out as it went
  in; with the token \<^verbatim>\<open>tok\<close> the request that comes out has the fields of the original
  and the header \<^verbatim>\<open>Authorization: Bearer tok\<close>.
\<close>

theorem intercept_frame_witness:
  "falsy None \<and>
   intercept id None example_request id = example_request \<and>
   js ''tok'' \<noteq> [] \<and>
   \<not> str_includes (url example_request) (js ''amazoncognito'') \<and>
   url (intercept id (Some (js ''tok'')) example_request id) = url example_request \<and>
   headers_get id (headers (intercept id (Some (js ''tok'')) example_request id))
     (js ''Authorization'') = Some (js ''Bearer tok'') \<and>
   headers_get id (headers (intercept id (Some (js ''tok'')) example_request id))
     (js ''Accept'') = Some (js ''application/json'')"
proof -
  have f: "falsy None" by (simp add: falsy_def)
  have n: "\<not> str_includes (url example_request) (js ''amazoncognito'')"
    by (simp add: example_request_def js_def)
  have ne: "js ''tok'' \<noteq> []" by (simp add: js_def)
  have 1: "intercept id None example_request id = example_request"
    using intercept_frame [where token = None and req = example_request
        and unicodeLower = id and next_handle = id] f by simp
  obtain h where h: "intercept id (Some (js ''tok'')) example_request id = example_request\<lparr>headers := h\<rparr>"
    "headers_get id h (js ''Authorization'') = Some (js ''Bearer '' @ js ''tok'')"
    "filter (\<lambda>p. fst p \<noteq> js ''authorization'') (headers_map h) =
       filter (\<lambda>p. fst p \<noteq> js ''authorization'') (headers_map (headers example_request))"
    using intercept_frame [where token = "Some (js ''tok'')" and req = example_request
        and t = "js ''tok''" and unicodeLower = id and next_handle = id] n ne
    by auto
  have acc: "js ''accept'' \<noteq> js ''authorization''" by (simp add: js_def)
  from h(3) acc have "filter (\<lambda>p. fst p \<noteq> js ''authorization'') (headers_map h) =
      [(js ''accept'', [js ''application/json''])]"
    by (simp add: example_request_def)
  then have "map_of (filter (\<lambda>p. fst p \<noteq> js ''authorization'') (headers_map h)) (js ''accept'') =
      Some [js ''application/json'']"
    by simp
  then have "map_of (headers_map h) (js ''accept'') = Some [js ''application/json'']"
    using acc by (simp add: map_of_filter_other)
  moreover have "toLowerCase id (js ''Accept'') = js ''accept''"
    by (simp add: toLowerCase_def js_eval)
  ultimately have 3: "headers_get id h (js ''Accept'') = Some (js ''application/json'')"
    by (simp add: headers_get_def)
  have 2: "js ''Bearer '' @ js ''tok'' = js ''Bearer tok''" by (simp add: js_def)
  show ?thesis using f n ne 1 h(1,2) 2 3 by simp
qed

section \<open>Properties of the order detail component\<close>

declare bitlen.simps [simp del]

lemma bitlen_0: "bitlen 0 = 0"
  by (simp add: bitlen.simps)

lemma bitlen_1: "bitlen 1 = 1"
  by (simp add: bitlen.simps)

lemma bitlen_Suc0: "bitlen (Suc 0) = 1"
  by (simp add: bitlen.simps)

lemma bitlen_numeral: "bitlen (numeral k) = Suc (bitlen (numeral k div 2))"
  by (subst bitlen.simps) simp

lemmas double_eval = round_double_def mk_double_def Let_def bitlen_0 bitlen_1 bitlen_Suc0
  bitlen_numeral decimal_literal_def number_of_nat_def signed_def

lemma taxRate_value: "taxRate = Finite False 6477977704009721 (- 56)"
  by (simp add: taxRate_def double_eval)

text \<open>The tax rate is the double nearest to 0.0899: it is less than \<open>2\<^sup>-\<^sup>5\<^sup>7\<close> away.\<close>

lemma taxRate_nearest:
  "taxRate = Finite False m e \<Longrightarrow>
   \<bar>10000 * int m - 899 * 2 ^ nat (- e)\<bar> * 2 < 10000 \<and> e = - 56"
  by (simp add: taxRate_value)

lemma one_value: "number_of_nat 1 = Finite False 4503599627370496 (- 52)"
  by (simp add: double_eval)

lemma three_value: "number_of_nat 3 = Finite False 6755399441055744 (- 51)"
  by (simp add: double_eval)

lemma subTotal_Nil: "orderProduct order = [] \<Longrightarrow> subTotal order = Inl TypeError"
  by (simp add: subTotal_def reduce_def)

lemma subTotal_Cons:
  "orderProduct order = op # ops \<Longrightarrow>
   subTotal order = Inr (foldl add (sum_op op) (map sum_op ops))"
  by (simp add: subTotal_def reduce_def sum_op_def [abs_def])

text \<open>
  C10 (as stated). In JavaScript's arithmetic \<open>s + s * 0.0899\<close> and \<open>s * (1 + 0.0899)\<close>
  are different numbers for some \<open>s\<close>. For the order of three units at the price of 1 the
  subtotal is 3, \<open>final\<close> is \<open>7362709850806655 \<times> 2\<^sup>-\<^sup>5\<^sup>1\<close> (printed 3.2697), and the
  subtotal multiplied by \<open>1 + 0.0899\<close> is \<open>7362709850806656 \<times> 2\<^sup>-\<^sup>5\<^sup>1\<close> (printed
  3.2697000000000003).
\<close>

theorem final_differs_from_product:
  "subTotal example_order = Inr (number_of_nat 3) \<and>
   final example_order = Inr (Finite False 7362709850806655 (- 51)) \<and>
   mul (number_of_nat 3) (add (number_of_nat 1) taxRate) = Finite False 7362709850806656 (- 51) \<and>
   final example_order \<noteq> Inr (mul (number_of_nat 3) (add (number_of_nat 1) taxRate))"
proof -
  have s: "subTotal example_order = Inr (number_of_nat 3)"
    by (simp add: example_order_def subTotal_def reduce_def one_value three_value double_eval)
  have f: "final example_order = Inr (Finite False 7362709850806655 (- 51))"
    by (simp add: final_def calcTax_def s three_value taxRate_value double_eval)
  have p: "mul (number_of_nat 3) (add (number_of_nat 1) taxRate) =
      Finite False 7362709850806656 (- 51)"
    by (simp add: one_value three_value taxRate_value double_eval)
  show ?thesis unfolding s f p by simp
qed

text \<open>
  C10 (amended). For an order whose list of products is not empty, \<open>subTotal\<close> is the sum,
  taken from the first item to the last, of price times quantity, and \<open>final\<close> is the
  subtotal plus the subtotal times 0.0899, each operation rounded as JavaScript rounds it.
  For an order with no product, \<open>subTotal\<close>, \<open>calcTax\<close> and \<open>final\<close> throw a \<^verbatim>\<open>TypeError\<close>.
\<close>

theorem subTotal_final:
  "(orderProduct order = [] \<longrightarrow>
      subTotal order = Inl TypeError \<and> calcTax order = Inl TypeError \<and>
      final order = Inl TypeError) \<and>
   (orderProduct order = op # ops \<longrightarrow>
      subTotal order = Inr (foldl add (sum_op op) (map sum_op ops)) \<and>
      calcTax order = Inr (mul (foldl add (sum_op op) (map sum_op ops)) taxRate) \<and>
      final order =
        Inr (add (foldl add (sum_op op) (map sum_op ops))
               (mul (foldl add (sum_op op) (map sum_op ops)) taxRate)))"
  by (simp add: final_def calcTax_def subTotal_Nil subTotal_Cons)

text \<open>
  The theorem at the empty order and at an order of two items, 3 at the price of 1 and 1
  at the price of 3, whose subtotal is 6.
\<close>

theorem subTotal_final_witness:
  "orderProduct \<lparr>orderProduct = []\<rparr> = [] \<and>
   final \<lparr>orderProduct = []\<rparr> = Inl TypeError \<and>
   subTotal \<lparr>orderProduct = [\<lparr>price = number_of_nat 1, quantity = number_of_nat 3\<rparr>,
      \<lparr>price = number_of_nat 3, quantity = number_of_nat 1\<rparr>]\<rparr> =
     Inr (Finite False 6755399441055744 (- 50))"
proof -
  have "final \<lparr>orderProduct = []\<rparr> = Inl TypeError"
    using subTotal_final [of "\<lparr>orderProduct = []\<rparr>"] by simp
  moreover have "subTotal \<lparr>orderProduct = [\<lparr>price = number_of_nat 1, quantity = number_of_nat 3\<rparr>,
      \<lparr>price = number_of_nat 3, quantity = number_of_nat 1\<rparr>]\<rparr> =
     Inr (Finite False 6755399441055744 (- 50))"
    using subTotal_final [of "\<lparr>orderProduct = [\<lparr>price = number_of_nat 1, quantity = number_of_nat 3\<rparr>,
      \<lparr>price = number_of_nat 3, quantity = number_of_nat 1\<rparr>]\<rparr>"
      "\<lparr>price = number_of_nat 1, quantity = number_of_nat 3\<rparr>"
      "[\<lparr>price = number_of_nat 3, quantity = number_of_nat 1\<rparr>]"]
    by (simp add: sum_op_def one_value three_value double_eval)
  ultimately show ?thesis by simp
qed

section \<open>Properties of the tenant deployment\<close>

lemma last_butlast2: "last (butlast (xs @ [a, b])) = a"
  by (simp add: butlast_append)

lemma apply_manifest_eq:
  "apply_manifest ns m rs =
   rs ++ map_of (rev (map (\<lambda>r. ((ns, kind_of (snd r), fst r), snd r)) m))"
proof (induction m arbitrary: rs)
  case Nil
  show ?case by simp
next
  case (Cons r m)
  show ?case
    by (simp add: Cons map_add_def fun_eq_iff split: option.split)
qed

lemma apply_manifest_idem:
  "apply_manifest ns m (apply_manifest ns m rs) = apply_manifest ns m rs"
  by (simp add: apply_manifest_eq map_add_def fun_eq_iff split: option.split)

lemma apply_manifest_twice:
  "apply_manifest ns m (apply_manifest ns m' (apply_manifest ns m (apply_manifest ns m' rs))) =
   apply_manifest ns m (apply_manifest ns m' rs)"
  by (simp add: apply_manifest_eq map_add_def fun_eq_iff split: option.split)

lemma apply_manifest_other_ns:
  "fst key \<noteq> ns \<Longrightarrow> apply_manifest ns m rs key = rs key"
  by (induction m arbitrary: rs) auto

lemma apply_manifest_other_name:
  "snd (snd key) \<notin> set (map fst m) \<Longrightarrow> apply_manifest ns m rs key = rs key"
  by (induction m arbitrary: rs) auto

text \<open>The outcome of a tenant deployment of a service whose directory is as the sources have it.\<close>

lemma tenant_deploy_fragment:
  assumes "ApplicationServiceProps.assetDirectory props = service_directory m k"
  shows "generated_fragment a (tenantDeployProject st props) tid c =
     Some (tenant_overlay st props tid)"
  using assms
  by (simp add: generated_fragment_def run_project_def tenantDeployProject_def Let_def
      expand_def service_directory_def kustomize_build_def patch_value_def image_of_def
      tenant_overlay_def fail_def last_butlast2)

lemma tenant_deploy_cluster:
  assumes "ApplicationServiceProps.assetDirectory props = service_directory m k"
  shows "cl (run_project a (tenantDeployProject st props) [(''TENANT_ID'', tid)] c) =
     (if single_word tid \<and> tid \<in> namespaces c
      then c\<lparr>resources := apply_manifest tid (tenant_overlay st props tid) (resources c)\<rparr>
      else c)"
  using assms
  by (simp add: run_project_def tenantDeployProject_def Let_def
      expand_def service_directory_def kustomize_build_def patch_value_def image_of_def
      tenant_overlay_def fail_def last_butlast2)

lemma tenant_deploy_failed:
  assumes "ApplicationServiceProps.assetDirectory props = service_directory m k"
  shows "failed (run_project a (tenantDeployProject st props) [(''TENANT_ID'', tid)] c) =
     (\<not> (single_word tid \<and> tid \<in> namespaces c))"
  using assms
  by (simp add: run_project_def tenantDeployProject_def Let_def
      expand_def service_directory_def kustomize_build_def patch_value_def image_of_def
      tenant_overlay_def fail_def last_butlast2)

lemma productSvc_directory:
  "ApplicationServiceProps.assetDirectory (productSvc (with_sources props kp ko)) =
   service_directory product_service_yaml kp"
  by (simp add: productSvc_def with_sources_def)

lemma orderSvc_directory:
  "ApplicationServiceProps.assetDirectory (orderSvc (with_sources props kp ko)) =
   service_directory order_service_yaml ko"
  by (simp add: orderSvc_def with_sources_def)

lemma product_rules:
  "route_rules (tenant_overlay st (productSvc (with_sources props kp ko)) tid) =
   [(map tolower (internalNLBApiDomain props), ''/'' @ tid @ ''/products'', ''product-service'', 80)]"
  by (simp add: route_rules_def tenant_overlay_def productSvc_def with_sources_def
      service_directory_def product_service_yaml_def)

lemma order_rules:
  "route_rules (tenant_overlay st (orderSvc (with_sources props kp ko)) tid) =
   [(map tolower (internalNLBApiDomain props), ''/'' @ tid @ ''/orders'', ''order-service'', 80)]"
  by (simp add: route_rules_def tenant_overlay_def orderSvc_def with_sources_def
      service_directory_def order_service_yaml_def)

lemma stack_projects:
  "find_project ''ProductServiceTenantDeploy'' (projects (account_of st props ts)) =
     Some (tenantDeployProject st (productSvc props))"
  "find_project ''OrderServiceTenantDeploy'' (projects (account_of st props ts)) =
     Some (tenantDeployProject st (orderSvc props))"
  by (simp_all add: account_of_def ServicesStack_def tenantDeployProject_def productSvc_def
      orderSvc_def)

text \<open>Publishing the routing of a tenant: the two tenant deployments, one after the other.\<close>

lemma publish_cluster:
  "run_started (account_of st (with_sources props kp ko) ts) (tenant_deploy_requests tid) c =
     (if single_word tid \<and> tid \<in> namespaces c
      then c\<lparr>resources :=
             apply_manifest tid (tenant_overlay st (orderSvc (with_sources props kp ko)) tid)
               (apply_manifest tid (tenant_overlay st (productSvc (with_sources props kp ko)) tid)
                  (resources c))\<rparr>
      else c)"
  by (simp add: tenant_deploy_requests_def stack_projects
      tenant_deploy_cluster [OF productSvc_directory]
      tenant_deploy_cluster [OF orderSvc_directory])

lemma overlay_names:
  "map fst (tenant_overlay st (productSvc (with_sources props kp ko)) tid) =
     [''product'', ''product-service'', ''product-service-ingress'']"
  "map fst (tenant_overlay st (orderSvc (with_sources props kp ko)) tid) =
     [''order'', ''order-service'', ''order-service-ingress'']"
  by (simp_all add: tenant_overlay_def productSvc_def orderSvc_def with_sources_def
      service_directory_def product_service_yaml_def order_service_yaml_def)

lemma publish_other_ns:
  "fst key \<noteq> tid \<Longrightarrow>
   resources (run_started (account_of st (with_sources props kp ko) ts)
     (tenant_deploy_requests tid) c) key = resources c key"
  by (simp add: publish_cluster apply_manifest_other_ns)

lemma publish_master:
  "resources (run_started (account_of st (with_sources props kp ko) ts)
     (tenant_deploy_requests tid) c) master_key = resources c master_key"
  by (simp add: publish_cluster apply_manifest_other_name overlay_names master_key_def)

lemma publish_namespaces:
  "namespaces (run_started (account_of st (with_sources props kp ko) ts)
     (tenant_deploy_requests tid) c) = namespaces c"
  by (simp add: publish_cluster)

text \<open>
  The ingresses that the two deployments publish are the fragments of the specification's
  \<open>GenerateRoutes\<close> for the shared API host, under the same names.
\<close>

lemma published_fragments:
  "filter (\<lambda>r. kind_of (snd r) = Ingress)
     (tenant_overlay st (productSvc (with_sources props kp ko)) tid @
      tenant_overlay st (orderSvc (with_sources props kp ko)) tid) =
   GenerateRoutes (map tolower (internalNLBApiDomain props)) tid downstream_services"
  by (simp add: tenant_overlay_def productSvc_def orderSvc_def with_sources_def
      service_directory_def product_service_yaml_def order_service_yaml_def
      GenerateRoutes_def downstream_services_def fragment_name_def)

lemma published_product_fragment:
  assumes "single_word tid \<and> tid \<in> namespaces c"
  shows "resources (run_started (account_of st (with_sources props kp ko) ts)
       (tenant_deploy_requests tid) c) (tid, Ingress, ''product-service-ingress'') =
     Some (IngressSpec \<lparr>ingress_class = ''nginx'', mergeable_type = Minion,
       host = map tolower (internalNLBApiDomain props),
       paths = [\<lparr>path = ''/'' @ tid @ ''/products'', pathType = ''Prefix'',
                 backend_service = ''product-service'', backend_port = 80\<rparr>]\<rparr>)"
  unfolding publish_cluster using assms
  by (simp add: tenant_overlay_def productSvc_def orderSvc_def with_sources_def
      service_directory_def product_service_yaml_def order_service_yaml_def)

lemma published_order_fragment:
  assumes "single_word tid \<and> tid \<in> namespaces c"
  shows "resources (run_started (account_of st (with_sources props kp ko) ts)
       (tenant_deploy_requests tid) c) (tid, Ingress, ''order-service-ingress'') =
     Some (IngressSpec \<lparr>ingress_class = ''nginx'', mergeable_type = Minion,
       host = map tolower (internalNLBApiDomain props),
       paths = [\<lparr>path = ''/'' @ tid @ ''/orders'', pathType = ''Prefix'',
                 backend_service = ''order-service'', backend_port = 80\<rparr>]\<rparr>)"
  unfolding publish_cluster using assms
  by (simp add: tenant_overlay_def productSvc_def orderSvc_def with_sources_def
      service_directory_def product_service_yaml_def order_service_yaml_def)

text \<open>
  C3. For every tenant identifier (lower-case letters, digits and underscores, as the
  derivation gives them) and for each of the two application services, the tenant
  deployment generates a fragment with exactly one route rule: its host is the
  shared API host (the internal API domain, lower-cased), its path is the tenant
  identifier followed by the URL prefix of the service, and its backend is the service,
  on port 80.
\<close>

theorem tenant_routes:
  assumes "list_all tenant_char tid"
  shows
    "map_option route_rules
       (generated_fragment a (tenantDeployProject st (productSvc (with_sources props kp ko))) tid c) =
       Some [(map tolower (internalNLBApiDomain props), ''/'' @ tid @ ''/products'',
              ''product-service'', 80)] \<and>
     map_option route_rules
       (generated_fragment a (tenantDeployProject st (orderSvc (with_sources props kp ko))) tid c) =
       Some [(map tolower (internalNLBApiDomain props), ''/'' @ tid @ ''/orders'',
              ''order-service'', 80)]"
  by (simp add: tenant_deploy_fragment [OF productSvc_directory]
      tenant_deploy_fragment [OF orderSvc_directory] product_rules order_rules)

lemma example_host:
  "map tolower (internalNLBApiDomain example_base_props) = ''api.example.com''"
  by (simp add: example_base_props_def tolower_def)

text \<open>
  For the tenant \<^verbatim>\<open>acmecorp\<close> the two paths are \<^verbatim>\<open>/acmecorp/products\<close> and
  \<^verbatim>\<open>/acmecorp/orders\<close>.
\<close>

theorem tenant_routes_witness:
  "list_all tenant_char ''acmecorp'' \<and>
   map_option route_rules
     (generated_fragment example_account
        (tenantDeployProject example_stack_env (productSvc example_props)) ''acmecorp''
        example_cluster) =
     Some [(''api.example.com'', ''/acmecorp/products'', ''product-service'', 80)] \<and>
   map_option route_rules
     (generated_fragment example_account
        (tenantDeployProject example_stack_env (orderSvc example_props)) ''acmecorp''
        example_cluster) =
     Some [(''api.example.com'', ''/acmecorp/orders'', ''order-service'', 80)]"
proof -
  have t: "list_all tenant_char ''acmecorp''"
    by (simp add: tenant_char_def)
  show ?thesis
    using tenant_routes [OF t, of example_account example_stack_env example_base_props
        example_kustomize_files example_kustomize_files example_cluster] t
    by (simp add: example_props_def example_host)
qed


text \<open>
  An identifier of a tenant that is not empty is one word of the shell, with no blank
  and no pattern character.
\<close>

lemma tenant_word: "tid \<noteq> [] \<Longrightarrow> list_all tenant_char tid \<Longrightarrow> single_word tid"
  by (auto simp: single_word_def tenant_char_def list_all_iff Let_def)

text \<open>
  The last phase of the onboarding build starts the two tenant deployments, each with the
  one override \<^verbatim>\<open>TENANT_ID\<close>, whatever the deployment of the tenant stack did.
\<close>

lemma onboarding_started:
  "started (run_project (account_of st (with_sources props kp ko) ts)
       (onboardingProject st (onboardingSvc (with_sources props kp ko)))
       ((''TENANT_ID'', tid) # ovs) c) =
     [(''ProductServiceTenantDeploy'', [(''TENANT_ID'', tid)]),
      (''OrderServiceTenantDeploy'', [(''TENANT_ID'', tid)])]"
proof -
  let ?a = "account_of st (with_sources props kp ko) ts"
  have names: "map projectName (projects ?a) =
      [''ProductServiceTenantDeploy'', ''OrderServiceTenantDeploy'',
       ''TenantOnboardingProject'', ''TenantDeletionProject'']"
    by (simp add: account_of_def ServicesStack_def tenantDeployProject_def onboardingProject_def
        tenantDeletionProject_def productSvc_def orderSvc_def onboardingSvc_def)
  show ?thesis
    by (simp add: run_project_def onboardingProject_def onboardingSvc_def Let_def names
        expand_def fail_def split: option.split)
qed

lemma acmecorp_namespace: "single_word ''acmecorp'' \<and> ''acmecorp'' \<in> namespaces example_cluster"
  by (simp add: single_word_def example_cluster_def)

text \<open>
  C5 (as stated). Not every triggered deployment applies the overlay of its service. The
  company name \<^verbatim>\<open>!!!\<close> has the empty tenant identifier; the onboarding build run with it
  starts the two tenant deployments all the same, and in each of them
  \<^verbatim>\<open>kubectl apply -k kubernetes/ -n $TENANT_ID\<close> has no namespace to name: the build
  fails and the cluster is as it was. So it is with \<^verbatim>\<open>initech\<close>, the identifier of the
  company \<^verbatim>\<open>Initech\<close>, which has no namespace in the cluster of the example: the two
  deployments are started, each fails, and each leaves the cluster as it was.
\<close>

theorem deploy_applies_nothing:
  "tenantId id (js ''!!!'') = [] \<and>
   started (run_project example_account
       (onboardingProject example_stack_env (onboardingSvc example_props))
       [(''TENANT_ID'', [])] example_cluster) =
     [(''ProductServiceTenantDeploy'', [(''TENANT_ID'', [])]),
      (''OrderServiceTenantDeploy'', [(''TENANT_ID'', [])])] \<and>
   failed (run_project example_account
       (tenantDeployProject example_stack_env (productSvc example_props))
       [(''TENANT_ID'', [])] example_cluster) \<and>
   cl (run_project example_account
       (tenantDeployProject example_stack_env (productSvc example_props))
       [(''TENANT_ID'', [])] example_cluster) = example_cluster \<and>
   failed (run_project example_account
       (tenantDeployProject example_stack_env (orderSvc example_props))
       [(''TENANT_ID'', [])] example_cluster) \<and>
   cl (run_project example_account
       (tenantDeployProject example_stack_env (orderSvc example_props))
       [(''TENANT_ID'', [])] example_cluster) = example_cluster \<and>
   tenantId id (js ''Initech'') = js ''initech'' \<and>
   ''initech'' \<notin> namespaces example_cluster \<and>
   started (run_project example_account
       (onboardingProject example_stack_env (onboardingSvc example_props))
       [(''TENANT_ID'', ''initech'')] example_cluster) =
     [(''ProductServiceTenantDeploy'', [(''TENANT_ID'', ''initech'')]),
      (''OrderServiceTenantDeploy'', [(''TENANT_ID'', ''initech'')])] \<and>
   failed (run_project example_account
       (tenantDeployProject example_stack_env (productSvc example_props))
       [(''TENANT_ID'', ''initech'')] example_cluster) \<and>
   cl (run_project example_account
       (tenantDeployProject example_stack_env (productSvc example_props))
       [(''TENANT_ID'', ''initech'')] example_cluster) = example_cluster \<and>
   failed (run_project example_account
       (tenantDeployProject example_stack_env (orderSvc example_props))
       [(''TENANT_ID'', ''initech'')] example_cluster) \<and>
   cl (run_project example_account
       (tenantDeployProject example_stack_env (orderSvc example_props))
       [(''TENANT_ID'', ''initech'')] example_cluster) = example_cluster"
proof -
  have e: "tenantId id (js ''!!!'') = []"
    by (simp add: tenantId_eq js_eval)
  have i: "tenantId id (js ''Initech'') = js ''initech''"
    by (simp add: tenantId_eq js_eval)
  have w: "\<not> single_word []"
    by (simp add: single_word_def)
  have n: "''initech'' \<notin> namespaces example_cluster"
    by (simp add: example_cluster_def)
  note p = productSvc_directory [of example_base_props example_kustomize_files
      example_kustomize_files, folded example_props_def]
  note q = orderSvc_directory [of example_base_props example_kustomize_files
      example_kustomize_files, folded example_props_def]
  note s = onboarding_started [of example_stack_env example_base_props example_kustomize_files
      example_kustomize_files "\<lambda>args c. Some c" _ "[]" example_cluster,
      folded example_props_def example_account_def]
  show ?thesis
    by (simp only: e i s tenant_deploy_failed [OF p] tenant_deploy_failed [OF q]
        tenant_deploy_cluster [OF p] tenant_deploy_cluster [OF q]) (simp add: w n)
qed

text \<open>
  C5 (amended). For every tenant identifier, the last phase of the onboarding build
  starts the tenant deployment of the product service and of the order service, each
  with the one override \<^verbatim>\<open>TENANT_ID\<close>, whatever the deployment of the tenant stack did;
  the two names are those of the tenant deployment projects of the two services. Each of
  these, run with that override, applies the overlay of its service in the namespace
  \<^verbatim>\<open>TENANT_ID\<close> provided that the identifier is not empty and that the cluster has the
  namespace of that name; and, with or without that namespace, it touches no resource
  of another namespace.
\<close>

theorem deploy_fanout:
  "started (run_project (account_of st (with_sources props kp ko) ts)
       (onboardingProject st (onboardingSvc (with_sources props kp ko)))
       ((''TENANT_ID'', tid) # ovs) c) =
     [(''ProductServiceTenantDeploy'', [(''TENANT_ID'', tid)]),
      (''OrderServiceTenantDeploy'', [(''TENANT_ID'', tid)])] \<and>
   find_project ''ProductServiceTenantDeploy'' (projects (account_of st (with_sources props kp ko) ts)) =
     Some (tenantDeployProject st (productSvc (with_sources props kp ko))) \<and>
   find_project ''OrderServiceTenantDeploy'' (projects (account_of st (with_sources props kp ko) ts)) =
     Some (tenantDeployProject st (orderSvc (with_sources props kp ko))) \<and>
   (tid \<noteq> [] \<and> list_all tenant_char tid \<and> tid \<in> namespaces c \<longrightarrow>
      cl (run_project (account_of st (with_sources props kp ko) ts)
            (tenantDeployProject st (productSvc (with_sources props kp ko))) [(''TENANT_ID'', tid)] c) =
        c\<lparr>resources := apply_manifest tid
            (tenant_overlay st (productSvc (with_sources props kp ko)) tid) (resources c)\<rparr> \<and>
      cl (run_project (account_of st (with_sources props kp ko) ts)
            (tenantDeployProject st (orderSvc (with_sources props kp ko))) [(''TENANT_ID'', tid)] c) =
        c\<lparr>resources := apply_manifest tid
            (tenant_overlay st (orderSvc (with_sources props kp ko)) tid) (resources c)\<rparr>) \<and>
   (fst key \<noteq> tid \<longrightarrow>
      resources (cl (run_project (account_of st (with_sources props kp ko) ts)
            (tenantDeployProject st (productSvc (with_sources props kp ko))) [(''TENANT_ID'', tid)] c)) key =
        resources c key \<and>
      resources (cl (run_project (account_of st (with_sources props kp ko) ts)
            (tenantDeployProject st (orderSvc (with_sources props kp ko))) [(''TENANT_ID'', tid)] c)) key =
        resources c key)"
  by (simp add: onboarding_started stack_projects tenant_deploy_cluster [OF productSvc_directory]
      tenant_deploy_cluster [OF orderSvc_directory] apply_manifest_other_ns tenant_word)

text \<open>
  In the example, the onboarding of \<^verbatim>\<open>acmecorp\<close> starts the two deployments, and the
  deployment of the order service puts the ingress of the order service, with the path
  \<^verbatim>\<open>/acmecorp/orders\<close>, in the namespace \<^verbatim>\<open>acmecorp\<close>.
\<close>

theorem deploy_fanout_witness:
  "''acmecorp'' \<noteq> [] \<and> list_all tenant_char ''acmecorp'' \<and>
   ''acmecorp'' \<in> namespaces example_cluster \<and>
   fst master_key \<noteq> ''acmecorp'' \<and>
   started (run_project example_account
       (onboardingProject example_stack_env (onboardingSvc example_props))
       [(''TENANT_ID'', ''acmecorp''), (''COMPANY_NAME'', ''Acme Corp!''),
        (''ADMIN_EMAIL'', ''a@acme.com''), (''PLAN'', ''pooled'')] example_cluster) =
     [(''ProductServiceTenantDeploy'', [(''TENANT_ID'', ''acmecorp'')]),
      (''OrderServiceTenantDeploy'', [(''TENANT_ID'', ''acmecorp'')])] \<and>
   resources (cl (run_project example_account
       (tenantDeployProject example_stack_env (orderSvc example_props))
       [(''TENANT_ID'', ''acmecorp'')] example_cluster))
     (''acmecorp'', Ingress, ''order-service-ingress'') =
     Some (IngressSpec \<lparr>ingress_class = ''nginx'', mergeable_type = Minion,
       host = ''api.example.com'',
       paths = [\<lparr>path = ''/acmecorp/orders'', pathType = ''Prefix'',
                 backend_service = ''order-service'', backend_port = 80\<rparr>]\<rparr>) \<and>
   resources (cl (run_project example_account
       (tenantDeployProject example_stack_env (orderSvc example_props))
       [(''TENANT_ID'', ''acmecorp'')] example_cluster)) master_key =
     Some (PrimarySameHostMergableIngress ''api.example.com'')"
proof -
  have ns: "''acmecorp'' \<noteq> [] \<and> list_all tenant_char ''acmecorp'' \<and>
      ''acmecorp'' \<in> namespaces example_cluster"
    by (simp add: tenant_char_def example_cluster_def)
  have m: "fst master_key \<noteq> ''acmecorp''"
    by (simp add: master_key_def)
  note d = deploy_fanout [of example_stack_env example_base_props example_kustomize_files
      example_kustomize_files "\<lambda>args c. Some c" "''acmecorp''"
      "[(''COMPANY_NAME'', ''Acme Corp!''), (''ADMIN_EMAIL'', ''a@acme.com''), (''PLAN'', ''pooled'')]"
      example_cluster master_key, folded example_props_def example_account_def]
  have o: "apply_manifest ''acmecorp'' (tenant_overlay example_stack_env (orderSvc example_props) ''acmecorp'')
        (resources example_cluster) (''acmecorp'', Ingress, ''order-service-ingress'') =
      Some (IngressSpec \<lparr>ingress_class = ''nginx'', mergeable_type = Minion,
       host = ''api.example.com'',
       paths = [\<lparr>path = ''/acmecorp/orders'', pathType = ''Prefix'',
                 backend_service = ''order-service'', backend_port = 80\<rparr>]\<rparr>)"
    using example_host
    by (simp add: tenant_overlay_def orderSvc_def example_props_def with_sources_def
        service_directory_def order_service_yaml_def)
  have r: "resources example_cluster master_key = Some (PrimarySameHostMergableIngress ''api.example.com'')"
    by (simp add: example_cluster_def)
  have s: "started (run_project example_account
       (onboardingProject example_stack_env (onboardingSvc example_props))
       [(''TENANT_ID'', ''acmecorp''), (''COMPANY_NAME'', ''Acme Corp!''),
        (''ADMIN_EMAIL'', ''a@acme.com''), (''PLAN'', ''pooled'')] example_cluster) =
     [(''ProductServiceTenantDeploy'', [(''TENANT_ID'', ''acmecorp'')]),
      (''OrderServiceTenantDeploy'', [(''TENANT_ID'', ''acmecorp'')])]"
    using d by (rule conjunct1)
  have c: "cl (run_project example_account
       (tenantDeployProject example_stack_env (orderSvc example_props))
       [(''TENANT_ID'', ''acmecorp'')] example_cluster) =
     example_cluster\<lparr>resources := apply_manifest ''acmecorp''
       (tenant_overlay example_stack_env (orderSvc example_props) ''acmecorp'')
       (resources example_cluster)\<rparr>"
    using d [THEN conjunct2, THEN conjunct2, THEN conjunct2, THEN conjunct1] ns by simp
  have k: "resources (cl (run_project example_account
       (tenantDeployProject example_stack_env (orderSvc example_props))
       [(''TENANT_ID'', ''acmecorp'')] example_cluster)) master_key =
     Some (PrimarySameHostMergableIngress ''api.example.com'')"
    using d [THEN conjunct2, THEN conjunct2, THEN conjunct2, THEN conjunct2] m r by simp
  show ?thesis
    using ns m s k by (simp add: c o)
qed

text \<open>
  C6. Publishing the routing of a tenant a second time changes nothing: the two tenant
  deployments, run again for the same tenant, leave the cluster, and so its routing
  state, as the first run left it; and so does each deployment on its own. Where the
  namespace of the tenant exists, the first run did put the fragment of the product
  service there.
\<close>

theorem republish_is_noop:
  "run_started (account_of st (with_sources props kp ko) ts) (tenant_deploy_requests tid)
     (run_started (account_of st (with_sources props kp ko) ts) (tenant_deploy_requests tid) c) =
   run_started (account_of st (with_sources props kp ko) ts) (tenant_deploy_requests tid) c \<and>
   routing_state (run_started (account_of st (with_sources props kp ko) ts) (tenant_deploy_requests tid)
     (run_started (account_of st (with_sources props kp ko) ts) (tenant_deploy_requests tid) c)) =
   routing_state (run_started (account_of st (with_sources props kp ko) ts) (tenant_deploy_requests tid) c) \<and>
   cl (run_project a (tenantDeployProject st (productSvc (with_sources props kp ko)))
         [(''TENANT_ID'', tid)]
         (cl (run_project a (tenantDeployProject st (productSvc (with_sources props kp ko)))
            [(''TENANT_ID'', tid)] c))) =
     cl (run_project a (tenantDeployProject st (productSvc (with_sources props kp ko)))
          [(''TENANT_ID'', tid)] c) \<and>
   cl (run_project a (tenantDeployProject st (orderSvc (with_sources props kp ko)))
         [(''TENANT_ID'', tid)]
         (cl (run_project a (tenantDeployProject st (orderSvc (with_sources props kp ko)))
            [(''TENANT_ID'', tid)] c))) =
     cl (run_project a (tenantDeployProject st (orderSvc (with_sources props kp ko)))
          [(''TENANT_ID'', tid)] c) \<and>
   (single_word tid \<and> tid \<in> namespaces c \<longrightarrow>
      routing_state (run_started (account_of st (with_sources props kp ko) ts)
          (tenant_deploy_requests tid) c) (tid, ''product-service-ingress'') =
        Some (IngressSpec \<lparr>ingress_class = ''nginx'', mergeable_type = Minion,
          host = map tolower (internalNLBApiDomain props),
          paths = [\<lparr>path = ''/'' @ tid @ ''/products'', pathType = ''Prefix'',
                    backend_service = ''product-service'', backend_port = 80\<rparr>]\<rparr>))"
proof -
  let ?a = "account_of st (with_sources props kp ko) ts"
  let ?P = "tenant_overlay st (productSvc (with_sources props kp ko)) tid"
  let ?O = "tenant_overlay st (orderSvc (with_sources props kp ko)) tid"
  have 1: "run_started ?a (tenant_deploy_requests tid) (run_started ?a (tenant_deploy_requests tid) c) =
      run_started ?a (tenant_deploy_requests tid) c"
    by (simp add: publish_cluster apply_manifest_twice)
  have 2: "cl (run_project a (tenantDeployProject st (productSvc (with_sources props kp ko)))
         [(''TENANT_ID'', tid)]
         (cl (run_project a (tenantDeployProject st (productSvc (with_sources props kp ko)))
            [(''TENANT_ID'', tid)] c))) =
     cl (run_project a (tenantDeployProject st (productSvc (with_sources props kp ko)))
          [(''TENANT_ID'', tid)] c)"
    by (simp add: tenant_deploy_cluster [OF productSvc_directory] apply_manifest_idem)
  have 3: "cl (run_project a (tenantDeployProject st (orderSvc (with_sources props kp ko)))
         [(''TENANT_ID'', tid)]
         (cl (run_project a (tenantDeployProject st (orderSvc (with_sources props kp ko)))
            [(''TENANT_ID'', tid)] c))) =
     cl (run_project a (tenantDeployProject st (orderSvc (with_sources props kp ko)))
          [(''TENANT_ID'', tid)] c)"
    by (simp add: tenant_deploy_cluster [OF orderSvc_directory] apply_manifest_idem)
  show ?thesis
    unfolding 1 2 3 using published_product_fragment [of tid c st props kp ko ts]
    by (simp add: routing_state_def)
qed

text \<open>
  In the example, the routing of \<^verbatim>\<open>acmecorp\<close> is there after the first publication, and
  the second publication leaves the cluster as it is.
\<close>

theorem republish_is_noop_witness:
  "single_word ''acmecorp'' \<and> ''acmecorp'' \<in> namespaces example_cluster \<and>
   routing_state (run_started example_account (tenant_deploy_requests ''acmecorp'') example_cluster)
       (''acmecorp'', ''product-service-ingress'') =
     Some (IngressSpec \<lparr>ingress_class = ''nginx'', mergeable_type = Minion,
       host = ''api.example.com'',
       paths = [\<lparr>path = ''/acmecorp/products'', pathType = ''Prefix'',
                 backend_service = ''product-service'', backend_port = 80\<rparr>]\<rparr>) \<and>
   run_started example_account (tenant_deploy_requests ''acmecorp'')
     (run_started example_account (tenant_deploy_requests ''acmecorp'') example_cluster) =
   run_started example_account (tenant_deploy_requests ''acmecorp'') example_cluster"
proof -
  note r = republish_is_noop [of example_stack_env example_base_props example_kustomize_files
      example_kustomize_files "\<lambda>args c. Some c" "''acmecorp''" example_cluster example_account,
      folded example_props_def example_account_def]
  show ?thesis
    using r [THEN conjunct1]
      r [THEN conjunct2, THEN conjunct2, THEN conjunct2, THEN conjunct2] acmecorp_namespace
      example_host
    by simp
qed


section \<open>Properties of the lifecycle of the specification\<close>

lemma slug_independent: "slug i cn = slug i' cn"
  by (simp add: slug_def tenantId_eq)

lemma map_fst_map_set:
  "map fst (map_set k v al) = (if k \<in> set (map fst al) then map fst al else map fst al @ [k])"
  by (induction al) auto

lemma distinct_map_set: "distinct (map fst al) \<Longrightarrow> distinct (map fst (map_set k v al))"
  by (simp add: map_fst_map_set)

lemma list_all_map_set:
  "list_all P al \<Longrightarrow> P (k, v) \<Longrightarrow> list_all P (map_set k v al)"
  by (induction al) auto

lemma registry_set_status:
  "registry (set_status tid st p) =
     (case map_of (registry p) tid of
        None \<Rightarrow> registry p
      | Some t \<Rightarrow> map_set tid (t\<lparr>status := st\<rparr>) (registry p))"
  by (simp add: set_status_def split: option.split)

lemma registry_ok_put:
  "registry_ok p \<Longrightarrow> TENANT_ID t = tid \<Longrightarrow> registry_ok (p\<lparr>registry := map_set tid t (registry p)\<rparr>)"
  by (simp add: registry_ok_def distinct_map_set list_all_map_set)

lemma registry_ok_lookup:
  "registry_ok p \<Longrightarrow> map_of (registry p) tid = Some t \<Longrightarrow> TENANT_ID t = tid"
  by (auto simp: registry_ok_def list_all_iff dest: map_of_SomeD)

lemma registry_ok_set_status: "registry_ok p \<Longrightarrow> registry_ok (set_status tid st p)"
  by (auto simp: set_status_def registry_ok_put registry_ok_lookup split: option.split)

lemma registry_ok_fields:
  "registry_ok (p\<lparr>routing := r\<rparr>) = registry_ok p"
  "registry_ok (p\<lparr>tenantResources := tr\<rparr>) = registry_ok p"
  "registry_ok (p\<lparr>identities := ids\<rparr>) = registry_ok p"
  "registry_ok (p\<lparr>deploymentRecords := d\<rparr>) = registry_ok p"
  by (simp_all add: registry_ok_def)

lemma onboard_registry_ok:
  "registry_ok p \<Longrightarrow> registry_ok (snd (Onboard i p cn e pl))"
  by (simp add: Onboard_def Let_def registry_ok_set_status registry_ok_put registry_ok_fields
      split: option.split)

text \<open>In a registry whose keys are distinct, a tenant identifier has at most one record.\<close>

lemma one_record:
  assumes "registry_ok p"
  shows "length (records_of p tid) \<le> 1"
proof -
  have main: "length (filter (\<lambda>item. TENANT_ID (snd item) = tid) al) \<le> 1"
    if "distinct (map fst al)" "list_all (\<lambda>item. TENANT_ID (snd item) = fst item) al" for al
    using that
  proof (induction al)
    case Nil
    then show ?case by simp
  next
    case (Cons x al)
    have none: "filter (\<lambda>item. TENANT_ID (snd item) = fst x) al = []"
      unfolding filter_empty_conv
    proof (intro ballI notI)
      fix item
      assume item: "item \<in> set al" and t: "TENANT_ID (snd item) = fst x"
      with Cons.prems(2) have "fst item = fst x"
        by (auto simp: list_all_iff)
      with item have "fst x \<in> set (map fst al)"
        by (metis image_eqI set_map)
      with Cons.prems(1) show False
        by simp
    qed
    show ?case
    proof (cases "TENANT_ID (snd x) = tid")
      case True
      with Cons.prems(2) have "tid = fst x" by simp
      with none True show ?thesis by simp
    next
      case False
      with Cons show ?thesis by simp
    qed
  qed
  have "records_of p tid = map snd (filter (\<lambda>item. TENANT_ID (snd item) = tid) (registry p))"
    by (simp add: records_of_def filter_map comp_def)
  with main [of "registry p"] assms show ?thesis
    by (simp add: registry_ok_def)
qed

lemma map_set_twice: "map_set k v (map_set k v' al) = map_set k v al"
  by (induction al) auto

lemma onboard_conflict_result:
  assumes "map_of (registry p) (slug i cn) = Some t" "status t \<noteq> Failed"
    "cn \<noteq> []" "wellFormed i e" "parse_plan pl \<noteq> None"
  shows "Onboard i p cn e pl = ((slug i cn, Inl ResourceConflict), p)"
  using assms by (auto simp: Onboard_def Let_def split: option.split)

lemma onboard_conflict_unchanged:
  assumes "map_of (registry p) (slug i cn) = Some t" "status t \<noteq> Failed"
  shows "snd (Onboard i p cn e pl) = p"
  using assms by (auto simp: Onboard_def Let_def split: option.split)

text \<open>An onboarding that meets no conflict and no fault.\<close>

lemma onboard_success:
  assumes "parse_plan pl = Some tr" "cn \<noteq> []" "wellFormed i e"
    "map_of (registry p) (slug i cn) = None"
    "\<not> resourcesFault i" "\<not> identityFault i" "\<not> routingFault i"
  shows "Onboard i p cn e pl =
     ((slug i cn, Inr (Deploy i (slug i cn) downstream_services)),
      \<lparr>registry = map_set (slug i cn)
          \<lparr>TENANT_ID = slug i cn, companyName = cn, adminEmail = e, plan = tr,
           status = Active, createdAt = now i\<rparr> (registry p),
       routing = PublishRoutes (apiHost i) (slug i cn) downstream_services (routing p),
       tenantResources = tenantResources p \<union> set (resource_names (slug i cn)),
       identities = insert (slug i cn @ ''-service-account'') (identities p),
       deploymentRecords = record_deployments (slug i cn)
          (Deploy i (slug i cn) downstream_services) (deploymentRecords p)\<rparr>)"
  using assms by (simp add: Onboard_def Let_def set_status_def map_of_map_set map_set_twice)

lemma acme_slug: "slug example_invocation (js ''Acme Corp!'') = ''acmecorp''"
  by (simp add: slug_def tenantId_eq js_eval char_of_def bit_Suc_0_iff)

lemma acme_again_slug: "slug example_invocation (js ''ACME corp'') = ''acmecorp''"
  by (simp add: slug_def tenantId_eq js_eval char_of_def bit_Suc_0_iff)

lemma acme_onboarded_eq:
  "acme_onboarded =
     \<lparr>registry = [(''acmecorp'',
          \<lparr>TENANT_ID = ''acmecorp'', companyName = js ''Acme Corp!'',
           adminEmail = js ''a@acme.com'', plan = PooledTier, status = Active, createdAt = 0\<rparr>)],
       routing = PublishRoutes ''api.example.com'' ''acmecorp'' downstream_services example_cluster,
       tenantResources = {''Order-acmecorp''},
       identities = {''acmecorp-service-account''},
       deploymentRecords = [(''acmecorp'', ''product'') \<mapsto> Deployed,
                            (''acmecorp'', ''order'') \<mapsto> Deployed]\<rparr>"
proof -
  have v: "parse_plan ''pooled'' = Some PooledTier" "js ''Acme Corp!'' \<noteq> []"
    "wellFormed example_invocation (js ''a@acme.com'')"
    "map_of (registry example_platform) (slug example_invocation (js ''Acme Corp!'')) = None"
    "\<not> resourcesFault example_invocation" "\<not> identityFault example_invocation"
    "\<not> routingFault example_invocation"
    by (simp_all add: parse_plan_def js_def example_invocation_def example_platform_def)
  show ?thesis
    unfolding acme_onboarded_def onboard_success [OF v] acme_slug
    by (simp add: example_invocation_def example_platform_def resource_names_def
        downstream_services_def Deploy_def)
qed

text \<open>
  C2. After a first onboarding, a second one whose company name gives the same tenant
  identifier, when the record of that identifier is not \<open>Failed\<close>, leaves the platform,
  and so the registry, as it was; and when its input passes the validation it fails with
  \<open>ResourceConflict\<close>. Onboarding keeps the keys of the registry distinct and every record
  under its own identifier, so that after each of the two calls the registry holds at
  most one record of any tenant identifier.
\<close>

theorem onboard_conflict:
  "(slug i2 cn2 = slug i1 cn1 \<and>
    map_of (registry (snd (Onboard i1 p cn1 e1 pl1))) (slug i1 cn1) = Some t \<and>
    status t \<noteq> Failed \<longrightarrow>
      snd (Onboard i2 (snd (Onboard i1 p cn1 e1 pl1)) cn2 e2 pl2) = snd (Onboard i1 p cn1 e1 pl1) \<and>
      (cn2 \<noteq> [] \<and> wellFormed i2 e2 \<and> parse_plan pl2 \<noteq> None \<longrightarrow>
         Onboard i2 (snd (Onboard i1 p cn1 e1 pl1)) cn2 e2 pl2 =
           ((slug i1 cn1, Inl ResourceConflict), snd (Onboard i1 p cn1 e1 pl1)))) \<and>
   (registry_ok p \<longrightarrow>
      registry_ok (snd (Onboard i1 p cn1 e1 pl1)) \<and>
      registry_ok (snd (Onboard i2 (snd (Onboard i1 p cn1 e1 pl1)) cn2 e2 pl2)) \<and>
      length (records_of (snd (Onboard i1 p cn1 e1 pl1)) tid) \<le> 1 \<and>
      length (records_of (snd (Onboard i2 (snd (Onboard i1 p cn1 e1 pl1)) cn2 e2 pl2)) tid) \<le> 1)"
proof (intro conjI impI)
  assume a: "slug i2 cn2 = slug i1 cn1 \<and>
    map_of (registry (snd (Onboard i1 p cn1 e1 pl1))) (slug i1 cn1) = Some t \<and>
    status t \<noteq> Failed"
  then have r: "map_of (registry (snd (Onboard i1 p cn1 e1 pl1))) (slug i2 cn2) = Some t"
    and s: "status t \<noteq> Failed"
    by simp_all
  show "snd (Onboard i2 (snd (Onboard i1 p cn1 e1 pl1)) cn2 e2 pl2) = snd (Onboard i1 p cn1 e1 pl1)"
    by (rule onboard_conflict_unchanged [OF r s])
  assume v: "cn2 \<noteq> [] \<and> wellFormed i2 e2 \<and> parse_plan pl2 \<noteq> None"
  from a have "slug i1 cn1 = slug i2 cn2" by simp
  then show "Onboard i2 (snd (Onboard i1 p cn1 e1 pl1)) cn2 e2 pl2 =
      ((slug i1 cn1, Inl ResourceConflict), snd (Onboard i1 p cn1 e1 pl1))"
    using onboard_conflict_result [OF r s] v by simp
next
  assume "registry_ok p"
  then show "registry_ok (snd (Onboard i1 p cn1 e1 pl1))"
    by (rule onboard_registry_ok)
next
  assume "registry_ok p"
  then show "registry_ok (snd (Onboard i2 (snd (Onboard i1 p cn1 e1 pl1)) cn2 e2 pl2))"
    by (intro onboard_registry_ok)
next
  assume "registry_ok p"
  then show "length (records_of (snd (Onboard i1 p cn1 e1 pl1)) tid) \<le> 1"
    by (intro one_record onboard_registry_ok)
next
  assume "registry_ok p"
  then show "length (records_of (snd (Onboard i2 (snd (Onboard i1 p cn1 e1 pl1)) cn2 e2 pl2)) tid) \<le> 1"
    by (intro one_record onboard_registry_ok)
qed

lemma acme_record:
  "map_of (registry acme_onboarded) ''acmecorp'' =
     Some \<lparr>TENANT_ID = ''acmecorp'', companyName = js ''Acme Corp!'',
       adminEmail = js ''a@acme.com'', plan = PooledTier, status = Active, createdAt = 0\<rparr>"
  by (simp add: acme_onboarded_eq)

text \<open>
  In the example, the company \<^verbatim>\<open>Acme Corp!\<close> is onboarded and is \<open>Active\<close>; the onboarding
  of \<^verbatim>\<open>ACME corp\<close>, which has the same identifier \<^verbatim>\<open>acmecorp\<close>, is a conflict and changes
  nothing.
\<close>

theorem onboard_conflict_witness:
  "slug example_invocation (js ''ACME corp'') = slug example_invocation (js ''Acme Corp!'') \<and>
   js ''ACME corp'' \<noteq> js ''Acme Corp!'' \<and>
   map_of (registry acme_onboarded) ''acmecorp'' =
     Some \<lparr>TENANT_ID = ''acmecorp'', companyName = js ''Acme Corp!'',
       adminEmail = js ''a@acme.com'', plan = PooledTier, status = Active, createdAt = 0\<rparr> \<and>
   Active \<noteq> Failed \<and>
   js ''ACME corp'' \<noteq> [] \<and> wellFormed example_invocation (js ''b@acme.com'') \<and>
   parse_plan ''silo'' \<noteq> None \<and>
   registry_ok example_platform \<and>
   Onboard example_invocation acme_onboarded (js ''ACME corp'') (js ''b@acme.com'') ''silo'' =
     ((''acmecorp'', Inl ResourceConflict), acme_onboarded) \<and>
   registry_ok acme_onboarded \<and>
   records_of acme_onboarded ''acmecorp'' =
     [\<lparr>TENANT_ID = ''acmecorp'', companyName = js ''Acme Corp!'',
       adminEmail = js ''a@acme.com'', plan = PooledTier, status = Active, createdAt = 0\<rparr>]"
proof -
  have 1: "slug example_invocation (js ''ACME corp'') = slug example_invocation (js ''Acme Corp!'')"
    by (simp add: acme_slug acme_again_slug)
  have 2: "js ''ACME corp'' \<noteq> js ''Acme Corp!''" "js ''ACME corp'' \<noteq> []"
    "wellFormed example_invocation (js ''b@acme.com'')" "parse_plan ''silo'' \<noteq> None"
    by (simp_all add: js_def example_invocation_def parse_plan_def)
  have 3: "registry_ok example_platform"
    by (simp add: registry_ok_def example_platform_def)
  note c = onboard_conflict [of example_invocation "js ''ACME corp''" example_invocation
      "js ''Acme Corp!''" example_platform "js ''a@acme.com''" "''pooled''"
      "\<lparr>TENANT_ID = ''acmecorp'', companyName = js ''Acme Corp!'',
       adminEmail = js ''a@acme.com'', plan = PooledTier, status = Active, createdAt = 0\<rparr>"
      "js ''b@acme.com''" "''silo''", folded acme_onboarded_def, unfolded acme_slug]
  have 4: "Onboard example_invocation acme_onboarded (js ''ACME corp'') (js ''b@acme.com'') ''silo'' =
     ((''acmecorp'', Inl ResourceConflict), acme_onboarded)"
    using c [THEN conjunct1] 1 2 acme_record by (simp add: acme_slug)
  have 5: "registry_ok acme_onboarded"
    using c [THEN conjunct2] 3 by simp
  have 6: "records_of acme_onboarded ''acmecorp'' =
     [\<lparr>TENANT_ID = ''acmecorp'', companyName = js ''Acme Corp!'',
       adminEmail = js ''a@acme.com'', plan = PooledTier, status = Active, createdAt = 0\<rparr>]"
    by (simp add: records_of_def acme_onboarded_eq)
  show ?thesis
    using 1 2 3 4 5 6 acme_record by simp
qed

lemma remove_published:
  "RemoveRoutes tid downstream_services (PublishRoutes h tid downstream_services c) =
   RemoveRoutes tid downstream_services c"
  by (auto simp: RemoveRoutes_def PublishRoutes_def GenerateRoutes_def downstream_services_def
      fragment_name_def fun_eq_iff)

text \<open>
  C7. \<open>Deprovision\<close> fails with \<open>NotFound\<close> when the registry has no record of the tenant
  and with \<open>InvalidState\<close> when the tenant is \<open>Deleted\<close>, and then changes nothing. On an
  \<open>Active\<close> tenant, when no stage meets a fault, it succeeds: the two route rules of the
  tenant are gone, the tenant-scoped data resource is gone, the status is \<open>Deleted\<close>, and
  another \<open>Deprovision\<close> of the tenant fails with \<open>InvalidState\<close>.
\<close>

theorem deprovision_states:
  "(map_of (registry p) tid = None \<longrightarrow> Deprovision i p tid = (Inl NotFound, p)) \<and>
   (map_of (registry p) tid = Some t \<and> status t = Deleted \<longrightarrow>
      Deprovision i p tid = (Inl InvalidState, p)) \<and>
   (map_of (registry p) tid = Some t \<and> status t = Active \<and>
    \<not> removalFault i \<and> \<not> teardownFault i \<longrightarrow>
      fst (Deprovision i p tid) = Inr () \<and>
      registry (snd (Deprovision i p tid)) = map_set tid (t\<lparr>status := Deleted\<rparr>) (registry p) \<and>
      map_of (registry (snd (Deprovision i p tid))) tid = Some (t\<lparr>status := Deleted\<rparr>) \<and>
      routing (snd (Deprovision i p tid)) = RemoveRoutes tid downstream_services (routing p) \<and>
      resources (routing (snd (Deprovision i p tid))) (tid, Ingress, ''product-service-ingress'') = None \<and>
      resources (routing (snd (Deprovision i p tid))) (tid, Ingress, ''order-service-ingress'') = None \<and>
      tenantResources (snd (Deprovision i p tid)) = tenantResources p - {''Order-'' @ tid} \<and>
      Deprovision i' (snd (Deprovision i p tid)) tid =
        (Inl InvalidState, snd (Deprovision i p tid)))"
proof (intro conjI impI)
  assume "map_of (registry p) tid = None"
  then show "Deprovision i p tid = (Inl NotFound, p)"
    by (simp add: Deprovision_def)
next
  assume "map_of (registry p) tid = Some t \<and> status t = Deleted"
  then show "Deprovision i p tid = (Inl InvalidState, p)"
    by (simp add: Deprovision_def)
next
  assume a: "map_of (registry p) tid = Some t \<and> status t = Active \<and>
    \<not> removalFault i \<and> \<not> teardownFault i"
  then have d: "Deprovision i p tid =
      (Inr (), p\<lparr>registry := map_set tid (t\<lparr>status := Deleted\<rparr>) (registry p),
                 routing := RemoveRoutes tid downstream_services (routing p),
                 tenantResources := tenantResources p - {''Order-'' @ tid}\<rparr>)"
    by (simp add: Deprovision_def Let_def set_status_def resource_names_def
        downstream_services_def map_of_map_set map_set_twice)
  show "fst (Deprovision i p tid) = Inr ()"
    and "registry (snd (Deprovision i p tid)) = map_set tid (t\<lparr>status := Deleted\<rparr>) (registry p)"
    and "map_of (registry (snd (Deprovision i p tid))) tid = Some (t\<lparr>status := Deleted\<rparr>)"
    and "routing (snd (Deprovision i p tid)) = RemoveRoutes tid downstream_services (routing p)"
    and "tenantResources (snd (Deprovision i p tid)) = tenantResources p - {''Order-'' @ tid}"
    by (simp_all add: d map_of_map_set)
  show "resources (routing (snd (Deprovision i p tid))) (tid, Ingress, ''product-service-ingress'') = None"
    and "resources (routing (snd (Deprovision i p tid))) (tid, Ingress, ''order-service-ingress'') = None"
    by (simp_all add: d RemoveRoutes_def downstream_services_def fragment_name_def)
  show "Deprovision i' (snd (Deprovision i p tid)) tid = (Inl InvalidState, snd (Deprovision i p tid))"
    unfolding d by (simp add: Deprovision_def map_of_map_set)
qed

text \<open>
  In the example, \<^verbatim>\<open>acmecorp\<close> is unknown before its onboarding; after it the tenant is
  \<open>Active\<close>, with its route rules and its table; \<open>Deprovision\<close> removes them, and a second
  \<open>Deprovision\<close> fails with \<open>InvalidState\<close>.
\<close>

theorem deprovision_states_witness:
  "map_of (registry example_platform) ''acmecorp'' = None \<and>
   Deprovision example_invocation example_platform ''acmecorp'' = (Inl NotFound, example_platform) \<and>
   map_of (registry acme_onboarded) ''acmecorp'' =
     Some \<lparr>TENANT_ID = ''acmecorp'', companyName = js ''Acme Corp!'',
       adminEmail = js ''a@acme.com'', plan = PooledTier, status = Active, createdAt = 0\<rparr> \<and>
   \<not> removalFault example_invocation \<and> \<not> teardownFault example_invocation \<and>
   resources (routing acme_onboarded) (''acmecorp'', Ingress, ''order-service-ingress'') =
     Some (IngressSpec \<lparr>ingress_class = ''nginx'', mergeable_type = Minion,
       host = ''api.example.com'',
       paths = [\<lparr>path = ''/acmecorp/orders'', pathType = ''Prefix'',
                 backend_service = ''order-service'', backend_port = 80\<rparr>]\<rparr>) \<and>
   tenantResources acme_onboarded = {''Order-acmecorp''} \<and>
   fst (Deprovision example_invocation acme_onboarded ''acmecorp'') = Inr () \<and>
   resources (routing (snd (Deprovision example_invocation acme_onboarded ''acmecorp'')))
     (''acmecorp'', Ingress, ''order-service-ingress'') = None \<and>
   resources (routing (snd (Deprovision example_invocation acme_onboarded ''acmecorp'')))
     (''acmecorp'', Ingress, ''product-service-ingress'') = None \<and>
   tenantResources (snd (Deprovision example_invocation acme_onboarded ''acmecorp'')) = {} \<and>
   map_of (registry (snd (Deprovision example_invocation acme_onboarded ''acmecorp'')))
       ''acmecorp'' =
     Some \<lparr>TENANT_ID = ''acmecorp'', companyName = js ''Acme Corp!'',
       adminEmail = js ''a@acme.com'', plan = PooledTier, status = Deleted, createdAt = 0\<rparr> \<and>
   Deprovision example_invocation
     (snd (Deprovision example_invocation acme_onboarded ''acmecorp'')) ''acmecorp'' =
     (Inl InvalidState, snd (Deprovision example_invocation acme_onboarded ''acmecorp''))"
proof -
  let ?t = "\<lparr>TENANT_ID = ''acmecorp'', companyName = js ''Acme Corp!'',
       adminEmail = js ''a@acme.com'', plan = PooledTier, status = Active, createdAt = 0\<rparr>"
  let ?p = "snd (Deprovision example_invocation acme_onboarded ''acmecorp'')"
  have n: "map_of (registry example_platform) ''acmecorp'' = None"
    by (simp add: example_platform_def)
  have f: "\<not> removalFault example_invocation" "\<not> teardownFault example_invocation"
    by (simp_all add: example_invocation_def)
  have 1: "Deprovision example_invocation example_platform ''acmecorp'' =
      (Inl NotFound, example_platform)"
    using deprovision_states [where p = example_platform and tid = "''acmecorp''"
        and i = example_invocation and t = ?t and i' = example_invocation, THEN conjunct1] n by simp
  note d = deprovision_states [where p = acme_onboarded and tid = "''acmecorp''"
      and i = example_invocation and t = ?t and i' = example_invocation,
      THEN conjunct2, THEN conjunct2, rule_format, OF conjI [OF acme_record]]
  have a: "status ?t = Active \<and> \<not> removalFault example_invocation \<and> \<not> teardownFault example_invocation"
    using f by simp
  note d' = d [OF a]
  have r: "resources (routing acme_onboarded) (''acmecorp'', Ingress, ''order-service-ingress'') =
     Some (IngressSpec \<lparr>ingress_class = ''nginx'', mergeable_type = Minion,
       host = ''api.example.com'',
       paths = [\<lparr>path = ''/acmecorp/orders'', pathType = ''Prefix'',
                 backend_service = ''order-service'', backend_port = 80\<rparr>]\<rparr>)"
    by (simp add: acme_onboarded_eq PublishRoutes_def GenerateRoutes_def downstream_services_def
        fragment_name_def)
  have tr: "tenantResources acme_onboarded = {''Order-acmecorp''}"
    by (simp add: acme_onboarded_eq)
  have g: "map_of (registry ?p) ''acmecorp'' = Some (?t\<lparr>status := Deleted\<rparr>)"
    using d' [THEN conjunct2, THEN conjunct2] by (rule conjunct1)
  have 2: "Deprovision example_invocation ?p ''acmecorp'' = (Inl InvalidState, ?p)"
    using deprovision_states [where p = ?p and tid = "''acmecorp''"
        and i = example_invocation and t = "?t\<lparr>status := Deleted\<rparr>"
        and i' = example_invocation, THEN conjunct2, THEN conjunct1] g by simp
  have e: "tenantResources ?p = {}"
    using d' [THEN conjunct2, THEN conjunct2, THEN conjunct2, THEN conjunct2, THEN conjunct2,
        THEN conjunct2, THEN conjunct1] tr by simp
  have s: "fst (Deprovision example_invocation acme_onboarded ''acmecorp'') = Inr ()"
    using d' by (rule conjunct1)
  have po: "resources (routing ?p) (''acmecorp'', Ingress, ''product-service-ingress'') = None"
    using d' [THEN conjunct2, THEN conjunct2, THEN conjunct2, THEN conjunct2]
    by (rule conjunct1)
  have oo: "resources (routing ?p) (''acmecorp'', Ingress, ''order-service-ingress'') = None"
    using d' [THEN conjunct2, THEN conjunct2, THEN conjunct2, THEN conjunct2, THEN conjunct2]
    by (rule conjunct1)
  show ?thesis
    using n 1 acme_record f r tr s po oo 2 e g by simp
qed

section \<open>The frame of publishing and removing routes\<close>

lemma generated_names:
  "map fst (GenerateRoutes h tid downstream_services) =
     [''product-service-ingress'', ''order-service-ingress'']"
  by (simp add: GenerateRoutes_def downstream_services_def fragment_name_def)

lemma PublishRoutes_frame:
  "resources (PublishRoutes h tid downstream_services c) master_key = resources c master_key"
  "tid \<noteq> ns \<Longrightarrow>
     resources (PublishRoutes h tid downstream_services c) (ns, k, n) = resources c (ns, k, n)"
  by (simp_all add: PublishRoutes_def apply_manifest_other_name apply_manifest_other_ns
      generated_names master_key_def)

lemma RemoveRoutes_frame:
  "resources (RemoveRoutes tid downstream_services c) master_key = resources c master_key"
  "tid \<noteq> ns \<or> \<not> (k = Ingress \<and> n \<in> set (map fragment_name downstream_services)) \<Longrightarrow>
     resources (RemoveRoutes tid downstream_services c) (ns, k, n) = resources c (ns, k, n)"
  by (auto simp: RemoveRoutes_def master_key_def downstream_services_def fragment_name_def)

lemma routing_Onboard:
  "routing (snd (Onboard i p cn e pl)) = routing p \<or>
   routing (snd (Onboard i p cn e pl)) =
     PublishRoutes (apiHost i) (slug i cn) downstream_services (routing p)"
  by (simp add: Onboard_def Let_def set_status_def split: option.split)

lemma routing_Deprovision:
  "routing (snd (Deprovision i p tid)) = routing p \<or>
   routing (snd (Deprovision i p tid)) = RemoveRoutes tid downstream_services (routing p)"
  by (simp add: Deprovision_def Let_def set_status_def map_of_map_set split: option.split)

text \<open>
  C4. Publishing the routing of a tenant (the two tenant deployments that its onboarding
  starts) and removing it leave the primary ingress as it is, and leave every resource of
  the namespace of another tenant as it is. Publishing touches the namespace of the
  tenant only; removing takes away the fragments of the tenant and nothing else; neither
  changes the namespaces. The same holds of the routing before and after an onboarding
  and a deprovisioning of the specification, whatever their outcome.
\<close>

theorem routing_frame:
  "resources (run_started (account_of st (with_sources props kp ko) ts)
       (tenant_deploy_requests tidA) c) master_key = resources c master_key \<and>
   resources (RemoveRoutes tidA downstream_services c) master_key = resources c master_key \<and>
   namespaces (run_started (account_of st (with_sources props kp ko) ts)
       (tenant_deploy_requests tidA) c) = namespaces c \<and>
   namespaces (RemoveRoutes tidA downstream_services c) = namespaces c \<and>
   (tidA \<noteq> tidB \<longrightarrow>
      resources (run_started (account_of st (with_sources props kp ko) ts)
          (tenant_deploy_requests tidA) c) (tidB, k, n) = resources c (tidB, k, n) \<and>
      resources (RemoveRoutes tidA downstream_services c) (tidB, k, n) = resources c (tidB, k, n)) \<and>
   (\<not> (k = Ingress \<and> n \<in> set (map fragment_name downstream_services)) \<longrightarrow>
      resources (RemoveRoutes tidA downstream_services c) (ns, k, n) = resources c (ns, k, n)) \<and>
   resources (routing (snd (Onboard i p cn e pl))) master_key = resources (routing p) master_key \<and>
   resources (routing (snd (Deprovision i p tidA))) master_key = resources (routing p) master_key \<and>
   (slug i cn \<noteq> tidB \<longrightarrow>
      resources (routing (snd (Onboard i p cn e pl))) (tidB, k, n) =
        resources (routing p) (tidB, k, n)) \<and>
   (tidA \<noteq> tidB \<longrightarrow>
      resources (routing (snd (Deprovision i p tidA))) (tidB, k, n) =
        resources (routing p) (tidB, k, n))"
proof -
  have n: "namespaces (RemoveRoutes tidA downstream_services c) = namespaces c"
    by (simp add: RemoveRoutes_def)
  have o: "resources (routing (snd (Onboard i p cn e pl))) master_key = resources (routing p) master_key"
    using routing_Onboard [of i p cn e pl] by (auto simp: PublishRoutes_frame)
  have d: "resources (routing (snd (Deprovision i p tidA))) master_key = resources (routing p) master_key"
    using routing_Deprovision [of i p tidA] by (auto simp: RemoveRoutes_frame)
  have o': "resources (routing (snd (Onboard i p cn e pl))) (tidB, k, n) =
      resources (routing p) (tidB, k, n)" if "slug i cn \<noteq> tidB"
    using routing_Onboard [of i p cn e pl] that by (auto simp: PublishRoutes_frame)
  have d': "resources (routing (snd (Deprovision i p tidA))) (tidB, k, n) =
      resources (routing p) (tidB, k, n)" if "tidA \<noteq> tidB"
    using routing_Deprovision [of i p tidA] that by (auto simp: RemoveRoutes_frame)
  show ?thesis
    using RemoveRoutes_frame(2) [of tidA tidB k n c] RemoveRoutes_frame(2) [of tidA ns k n c] o' d'
    by (simp add: n o d RemoveRoutes_frame(1) publish_master publish_namespaces publish_other_ns)
qed

lemma globex_orders:
  "resources globex_published (''globex'', Ingress, ''order-service-ingress'') =
     Some (IngressSpec \<lparr>ingress_class = ''nginx'', mergeable_type = Minion,
       host = ''api.example.com'',
       paths = [\<lparr>path = ''/globex/orders'', pathType = ''Prefix'',
                 backend_service = ''order-service'', backend_port = 80\<rparr>]\<rparr>)"
proof -
  have ns: "single_word ''globex'' \<and> ''globex'' \<in> namespaces example_cluster"
    by (simp add: single_word_def example_cluster_def)
  have "resources globex_published (''globex'', Ingress, ''order-service-ingress'') =
     Some (IngressSpec \<lparr>ingress_class = ''nginx'', mergeable_type = Minion,
       host = map tolower (internalNLBApiDomain example_base_props),
       paths = [\<lparr>path = ''/'' @ ''globex'' @ ''/orders'', pathType = ''Prefix'',
                 backend_service = ''order-service'', backend_port = 80\<rparr>]\<rparr>)"
    unfolding globex_published_def example_account_def example_props_def
    by (rule published_order_fragment [OF ns])
  then show ?thesis
    unfolding example_host by simp
qed

lemma globex_master:
  "resources globex_published master_key = Some (PrimarySameHostMergableIngress ''api.example.com'')"
  unfolding globex_published_def example_account_def example_props_def
  by (simp add: publish_master) (simp add: example_cluster_def)

text \<open>
  In the example, the routing of \<^verbatim>\<open>globex\<close> is in place when \<^verbatim>\<open>acmecorp\<close> is published
  and when it is removed: the fragment of \<^verbatim>\<open>globex\<close> and the primary ingress are there
  throughout, also through the onboarding and the deprovisioning of \<^verbatim>\<open>Acme Corp!\<close>, and
  the removal leaves the deployment of \<^verbatim>\<open>acmecorp\<close>, which is no fragment, where it was.
\<close>

theorem routing_frame_witness:
  "''acmecorp'' \<noteq> ''globex'' \<and>
   slug example_invocation (js ''Acme Corp!'') \<noteq> ''globex'' \<and>
   resources (run_started example_account (tenant_deploy_requests ''acmecorp'') globex_published)
       (''globex'', Ingress, ''order-service-ingress'') =
     Some (IngressSpec \<lparr>ingress_class = ''nginx'', mergeable_type = Minion,
       host = ''api.example.com'',
       paths = [\<lparr>path = ''/globex/orders'', pathType = ''Prefix'',
                 backend_service = ''order-service'', backend_port = 80\<rparr>]\<rparr>) \<and>
   resources (RemoveRoutes ''acmecorp'' downstream_services globex_published)
       (''globex'', Ingress, ''order-service-ingress'') =
     Some (IngressSpec \<lparr>ingress_class = ''nginx'', mergeable_type = Minion,
       host = ''api.example.com'',
       paths = [\<lparr>path = ''/globex/orders'', pathType = ''Prefix'',
                 backend_service = ''order-service'', backend_port = 80\<rparr>]\<rparr>) \<and>
   resources (run_started example_account (tenant_deploy_requests ''acmecorp'') globex_published)
       master_key = Some (PrimarySameHostMergableIngress ''api.example.com'') \<and>
   resources (RemoveRoutes ''acmecorp'' downstream_services globex_published) master_key =
     Some (PrimarySameHostMergableIngress ''api.example.com'') \<and>
   \<not> (Deployment = Ingress \<and> ''order'' \<in> set (map fragment_name downstream_services)) \<and>
   resources (RemoveRoutes ''acmecorp'' downstream_services globex_published)
       (''acmecorp'', Deployment, ''order'') =
     resources globex_published (''acmecorp'', Deployment, ''order'') \<and>
   resources (routing (snd (Onboard example_invocation (example_platform\<lparr>routing := globex_published\<rparr>)
       (js ''Acme Corp!'') (js ''a@acme.com'') ''pooled'')))
       (''globex'', Ingress, ''order-service-ingress'') =
     Some (IngressSpec \<lparr>ingress_class = ''nginx'', mergeable_type = Minion,
       host = ''api.example.com'',
       paths = [\<lparr>path = ''/globex/orders'', pathType = ''Prefix'',
                 backend_service = ''order-service'', backend_port = 80\<rparr>]\<rparr>) \<and>
   resources (routing (snd (Deprovision example_invocation
       (example_platform\<lparr>routing := globex_published\<rparr>) ''acmecorp'')))
       (''globex'', Ingress, ''order-service-ingress'') =
     Some (IngressSpec \<lparr>ingress_class = ''nginx'', mergeable_type = Minion,
       host = ''api.example.com'',
       paths = [\<lparr>path = ''/globex/orders'', pathType = ''Prefix'',
                 backend_service = ''order-service'', backend_port = 80\<rparr>]\<rparr>)"
proof -
  let ?p = "example_platform\<lparr>routing := globex_published\<rparr>"
  note f = routing_frame [where st = example_stack_env and props = example_base_props
      and kp = example_kustomize_files and ko = example_kustomize_files
      and ts = "\<lambda>args c. Some c" and tidA = "''acmecorp''" and c = globex_published
      and tidB = "''globex''" and k = Ingress and n = "''order-service-ingress''"
      and i = example_invocation and p = ?p and cn = "js ''Acme Corp!''"
      and e = "js ''a@acme.com''" and pl = "''pooled''",
      folded example_props_def example_account_def]
  note g = routing_frame [where st = example_stack_env and props = example_base_props
      and kp = example_kustomize_files and ko = example_kustomize_files
      and ts = "\<lambda>args c. Some c" and tidA = "''acmecorp''" and c = globex_published
      and tidB = "''globex''" and k = Deployment and n = "''order''" and ns = "''acmecorp''",
      folded example_props_def example_account_def]
  have d: "''acmecorp'' \<noteq> ''globex''" by simp
  have s: "slug example_invocation (js ''Acme Corp!'') \<noteq> ''globex''"
    by (simp add: acme_slug)
  have r: "routing ?p = globex_published" by simp
  have 1: "resources (run_started example_account (tenant_deploy_requests ''acmecorp'') globex_published)
       (''globex'', Ingress, ''order-service-ingress'') =
      resources globex_published (''globex'', Ingress, ''order-service-ingress'')"
    and 2: "resources (RemoveRoutes ''acmecorp'' downstream_services globex_published)
       (''globex'', Ingress, ''order-service-ingress'') =
      resources globex_published (''globex'', Ingress, ''order-service-ingress'')"
    using f d by simp_all
  have 3: "resources (run_started example_account (tenant_deploy_requests ''acmecorp'') globex_published)
       master_key = resources globex_published master_key"
    and 4: "resources (RemoveRoutes ''acmecorp'' downstream_services globex_published) master_key =
      resources globex_published master_key"
    using f by simp_all
  have 5: "\<not> (Deployment = Ingress \<and> ''order'' \<in> set (map fragment_name downstream_services))"
    by simp
  have 6: "resources (RemoveRoutes ''acmecorp'' downstream_services globex_published)
       (''acmecorp'', Deployment, ''order'') =
     resources globex_published (''acmecorp'', Deployment, ''order'')"
    using g by simp
  have 7: "resources (routing (snd (Onboard example_invocation ?p
       (js ''Acme Corp!'') (js ''a@acme.com'') ''pooled'')))
       (''globex'', Ingress, ''order-service-ingress'') =
      resources globex_published (''globex'', Ingress, ''order-service-ingress'')"
    using f s unfolding r by simp
  have 8: "resources (routing (snd (Deprovision example_invocation ?p ''acmecorp'')))
       (''globex'', Ingress, ''order-service-ingress'') =
      resources globex_published (''globex'', Ingress, ''order-service-ingress'')"
    using f d unfolding r by simp
  show ?thesis
    unfolding 1 2 3 4 6 7 8 globex_orders globex_master using d s 5 by simp
qed

end
